theory Spec2Isabelle
  imports Main "HOL-Library.Word"
begin

section \<open>gobank: the account API and its token-gated route\<close>

text \<open>
  A shallow embedding of \<^verbatim>\<open>api.go\<close> and \<^verbatim>\<open>storage.go\<close>.  Go values of type
  \<^verbatim>\<open>error\<close> are represented by their message text (what \<^verbatim>\<open>err.Error()\<close> returns), a
  pointer that may be \<^verbatim>\<open>nil\<close> by an \<open>option\<close>, a Go \<^verbatim>\<open>int64\<close> by a 64-bit word read
  with \<open>sint\<close>.  Everything the handlers mutate (the response writer, the database behind
  the store, standard output) is passed in and returned.
\<close>

type_synonym error = string
type_synonym int64 = "64 word"

subsection \<open>Data declared outside the two source files\<close>

text \<open>
  Modelled from the spec: the \<^verbatim>\<open>Account\<close> struct, whose declaration is not among the
  source files.  The spec lists identifier, first name, last name, account number (a
  64-bit integer; \<^verbatim>\<open>api.go\<close> compares it with an \<^verbatim>\<open>int64\<close>), balance and creation
  timestamp; the field names are those \<^verbatim>\<open>rows.Scan\<close> uses in \<^verbatim>\<open>storage.go\<close>.
\<close>

record Account =
  ID :: int
  FirstName :: string
  LastName :: string
  Number :: int64
  Balance :: int64
  CreatedAt :: int

text \<open>
  Modelled from the spec: the request types \<^verbatim>\<open>CreateAccountRequest\<close> (first and last
  name only) and \<^verbatim>\<open>TransferRequest\<close> (destination account number and amount), declared
  outside the source files.
\<close>

record CreateAccountRequest =
  req_FirstName :: string
  req_LastName :: string

record TransferRequest =
  ToAccount :: int
  Amount :: int

text \<open>
  Modelled from the spec: the constructor \<^verbatim>\<open>NewAccount\<close>, declared outside the source
  files.  It is given the two names; number, balance and timestamp are generated by the
  system and the identifier is assigned later by the store.  The generated fields are
  taken from the first argument.
\<close>

definition NewAccount :: "Account \<Rightarrow> string \<Rightarrow> string \<Rightarrow> Account" where
  "NewAccount generated firstName lastName =
     generated\<lparr>FirstName := firstName, LastName := lastName\<rparr>"

subsection \<open>JSON numbers and Go's float64\<close>

text \<open>
  The token library decodes the claims with \<^verbatim>\<open>encoding/json\<close> into
  \<^verbatim>\<open>map[string]interface{}\<close>, where every JSON number becomes a \<^verbatim>\<open>float64\<close>.  Only
  integer literals are modelled (\<^verbatim>\<open>createJWT\<close> writes no other), so a \<^verbatim>\<open>float64\<close> is
  represented by the integer it holds.  \<open>float64_of_int\<close> is IEEE 754 rounding of an
  integer to 53 significant bits, ties to the even significand.
\<close>

fun bitlen :: "nat \<Rightarrow> nat" where
  "bitlen n = (if n = 0 then 0 else Suc (bitlen (n div 2)))"

declare bitlen.simps [simp del]

definition float64_of_int :: "int \<Rightarrow> int" where
  "float64_of_int n =
     (let a = nat \<bar>n\<bar>; e = bitlen a - 53 in
      if bitlen a \<le> 53 then n
      else
        let q = a div 2 ^ e; r = a mod 2 ^ e; h = 2 ^ (e - 1);
            q' = (if h < r \<or> (r = h \<and> odd q) then q + 1 else q)
        in sgn n * int (q' * 2 ^ e))"

text \<open>
  The largest finite \<^verbatim>\<open>float64\<close> is below \<open>2 ^ 1024\<close>; a literal that rounds beyond it
  makes \<^verbatim>\<open>strconv.ParseFloat\<close>, and with it the JSON decoder, fail.
\<close>

definition float64_finite :: "int \<Rightarrow> bool" where
  "float64_finite n \<longleftrightarrow> \<bar>float64_of_int n\<bar> < 2 ^ 1024"

text \<open>
  The Go conversion \<^verbatim>\<open>int64(f)\<close>.  A value outside the range of \<^verbatim>\<open>int64\<close> converts to
  an implementation-dependent result, which is a parameter.
\<close>

definition int64_of_float64 :: "(int \<Rightarrow> int64) \<Rightarrow> int \<Rightarrow> int64" where
  "int64_of_float64 overflow f =
     (if - (2 ^ 63) \<le> f \<and> f < 2 ^ 63 then word_of_int f else overflow f)"

datatype json =
    JNull
  | JBool bool
  | JNumber int
  | JString string
  | JArray "json list"
  | JObject "(string \<times> json) list"

text \<open>A decoded value of Go type \<^verbatim>\<open>interface{}\<close>.\<close>

datatype any =
    INil
  | IBool bool
  | IFloat64 int
  | IString string
  | ISlice "any list"
  | IMap "(string \<times> any) list"

primrec unmarshal :: "json \<Rightarrow> any" where
  "unmarshal JNull = INil"
| "unmarshal (JBool b) = IBool b"
| "unmarshal (JNumber n) = IFloat64 (float64_of_int n)"
| "unmarshal (JString s) = IString s"
| "unmarshal (JArray xs) = ISlice (map unmarshal xs)"
| "unmarshal (JObject kvs) = IMap (map (map_prod id unmarshal) kvs)"

primrec decodable :: "json \<Rightarrow> bool" where
  "decodable JNull = True"
| "decodable (JBool b) = True"
| "decodable (JNumber n) = float64_finite n"
| "decodable (JString s) = True"
| "decodable (JArray xs) = list_all decodable xs"
| "decodable (JObject kvs) = list_all (pred_prod (\<lambda>k. True) decodable) kvs"

text \<open>A JSON object decoded into a Go map: a later duplicate key overrides an earlier one.\<close>

definition unmarshal_object :: "(string \<times> json) list \<Rightarrow> (string \<rightharpoonup> any)" where
  "unmarshal_object kvs = map_of (rev (map (map_prod id unmarshal) kvs))"

subsection \<open>The token library (\<^verbatim>\<open>github.com/golang-jwt/jwt/v5\<close>)\<close>

text \<open>
  The library is imported by \<^verbatim>\<open>api.go\<close>; what follows models the part of it the program
  calls.  A compact token is three dot-separated base64url segments: a JSON header, a JSON
  claims object and a signature.  A token string is represented by what the library's
  segment decoding makes of it: either the three decoded segments, or \<open>Undecodable s\<close> for
  a string \<open>s\<close> that does not split into three segments that decode (the empty string among
  them).  Signatures are symbolic: \<open>HMAC alg key header claims\<close> is the keyed hash of the
  first two segments, and \<open>OtherBytes\<close> stands for bytes that are no such hash.
\<close>

datatype signature =
    HMAC string string "(string \<times> json) list" "(string \<times> json) list"
  | OtherBytes string

datatype tokenString =
    Segments "(string \<times> json) list" "(string \<times> json) list" signature
  | Undecodable string

text \<open>The registered signing methods, by the Go type that implements them.\<close>

datatype SigningMethod =
    SigningMethodHMAC string
  | SigningMethodRSA string
  | SigningMethodRSAPSS string
  | SigningMethodECDSA string
  | SigningMethodEd25519
  | signingMethodNone

definition GetSigningMethod :: "string \<Rightarrow> SigningMethod option" where
  "GetSigningMethod alg =
     (if alg \<in> {''HS256'', ''HS384'', ''HS512''} then Some (SigningMethodHMAC alg)
      else if alg \<in> {''RS256'', ''RS384'', ''RS512''} then Some (SigningMethodRSA alg)
      else if alg \<in> {''PS256'', ''PS384'', ''PS512''} then Some (SigningMethodRSAPSS alg)
      else if alg \<in> {''ES256'', ''ES384'', ''ES512''} then Some (SigningMethodECDSA alg)
      else if alg = ''EdDSA'' then Some SigningMethodEd25519
      else if alg = ''none'' then Some signingMethodNone
      else None)"

record Token =
  tok_Method :: SigningMethod
  tok_Header :: "string \<rightharpoonup> any"
  tok_Claims :: "string \<rightharpoonup> any"
  tok_Signature :: signature
  tok_Valid :: bool

text \<open>
  \<^verbatim>\<open>Parser.ParseUnverified\<close>: decode the segments, then look the signing method up
  under the header's \<^verbatim>\<open>alg\<close>.
\<close>

definition ParseUnverified :: "tokenString \<Rightarrow> error + Token" where
  "ParseUnverified tokenString =
     (case tokenString of
        Undecodable s \<Rightarrow> Inl ''token is malformed''
      | Segments hdr cl sg \<Rightarrow>
          if \<not> (decodable (JObject hdr) \<and> decodable (JObject cl))
          then Inl ''token is malformed''
          else
            (case unmarshal_object hdr ''alg'' of
               Some (IString alg) \<Rightarrow>
                 (case GetSigningMethod alg of
                    None \<Rightarrow> Inl ''token is unverifiable: signing method (alg) is unavailable''
                  | Some m \<Rightarrow>
                      Inr \<lparr>tok_Method = m, tok_Header = unmarshal_object hdr,
                           tok_Claims = unmarshal_object cl, tok_Signature = sg,
                           tok_Valid = False\<rparr>)
             | _ \<Rightarrow> Inl ''token is unverifiable: signing method (alg) is unspecified''))"

text \<open>
  \<^verbatim>\<open>SigningMethod.Verify\<close> with a key of type \<^verbatim>\<open>[]byte\<close>, the only kind of key the
  program's callback returns.  The HMAC methods recompute the hash; every other method
  refuses a byte-slice key.
\<close>

definition Verify ::
  "SigningMethod \<Rightarrow> (string \<times> json) list \<Rightarrow> (string \<times> json) list \<Rightarrow> signature \<Rightarrow> string
     \<Rightarrow> error option" where
  "Verify m hdr cl sg key =
     (case m of
        SigningMethodHMAC alg \<Rightarrow>
          if sg = HMAC alg key hdr cl then None else Some ''signature is invalid''
      | _ \<Rightarrow> Some ''key is of invalid type'')"

text \<open>
  The default claims validator: \<^verbatim>\<open>exp\<close> and \<^verbatim>\<open>nbf\<close> are checked against the clock
  when present; a value of zero counts as absent, a value that is no number is an error.
  No other claim is looked at.
\<close>

definition verifyExpiresAt :: "(string \<rightharpoonup> any) \<Rightarrow> int \<Rightarrow> error option" where
  "verifyExpiresAt claims now =
     (case claims ''exp'' of
        None \<Rightarrow> None
      | Some (IFloat64 exp) \<Rightarrow>
          if exp = 0 then None
          else if now < exp then None else Some ''token is expired''
      | Some _ \<Rightarrow> Some ''exp is invalid: invalid type for claim'')"

definition verifyNotBefore :: "(string \<rightharpoonup> any) \<Rightarrow> int \<Rightarrow> error option" where
  "verifyNotBefore claims now =
     (case claims ''nbf'' of
        None \<Rightarrow> None
      | Some (IFloat64 nbf) \<Rightarrow>
          if nbf = 0 then None
          else if nbf \<le> now then None else Some ''token is not valid yet''
      | Some _ \<Rightarrow> Some ''nbf is invalid: invalid type for claim'')"

definition Validate :: "(string \<rightharpoonup> any) \<Rightarrow> int \<Rightarrow> error option" where
  "Validate claims now =
     (case (verifyExpiresAt claims now, verifyNotBefore claims now) of
        (None, None) \<Rightarrow> None
      | (Some e, _) \<Rightarrow> Some (''token has invalid claims: '' @ e)
      | (None, Some e) \<Rightarrow> Some (''token has invalid claims: '' @ e))"

text \<open>
  \<^verbatim>\<open>jwt.Parse\<close>: parse, ask the callback for the key, verify the signature, validate
  the claims, and only then mark the token valid.  Go returns a token beside the error;
  the program reads the token only when the error is \<^verbatim>\<open>nil\<close>, so the error case carries
  none here.
\<close>

definition Parse ::
  "int \<Rightarrow> tokenString \<Rightarrow> (Token \<Rightarrow> error + string) \<Rightarrow> error + Token" where
  "Parse now tokenString keyFunc =
     (case ParseUnverified tokenString of
        Inl e \<Rightarrow> Inl e
      | Inr token \<Rightarrow>
          (case keyFunc token of
             Inl e \<Rightarrow> Inl (''token is unverifiable: error while executing keyfunc: '' @ e)
           | Inr key \<Rightarrow>
               (case tokenString of
                  Undecodable s \<Rightarrow> Inl ''token is malformed''
                | Segments hdr cl sg \<Rightarrow>
                    (case Verify (tok_Method token) hdr cl sg key of
                       Some e \<Rightarrow> Inl (''token signature is invalid: '' @ e)
                     | None \<Rightarrow>
                         (case Validate (tok_Claims token) now of
                            Some e \<Rightarrow> Inl e
                          | None \<Rightarrow> Inr (token\<lparr>tok_Valid := True\<rparr>))))))"

text \<open>
  \<^verbatim>\<open>jwt.NewWithClaims(method, claims).SignedString(key)\<close>: the header names the
  algorithm, the claims are marshalled (Go writes the keys of a map in sorted order) and
  the two segments are signed.
\<close>

definition SignedString :: "string \<Rightarrow> (string \<times> json) list \<Rightarrow> string \<Rightarrow> error + tokenString" where
  "SignedString alg claims key =
     (let hdr = [(''alg'', JString alg), (''typ'', JString ''JWT'')]
      in Inr (Segments hdr claims (HMAC alg key hdr claims)))"

subsection \<open>Requests, responses and the world around a handler\<close>

text \<open>
  \<^verbatim>\<open>strconv.Atoi\<close> on a 64-bit platform: an optional sign, then one or more decimal
  digits, and the value must fit Go's \<^verbatim>\<open>int\<close>.
\<close>

datatype NumError = ErrSyntax | ErrRange

definition is_digit :: "char \<Rightarrow> bool" where
  "is_digit c \<longleftrightarrow> 48 \<le> (of_char c :: nat) \<and> (of_char c :: nat) \<le> 57"

definition digits_value :: "string \<Rightarrow> nat" where
  "digits_value ds = foldl (\<lambda>n c. 10 * n + (of_char c - 48)) 0 ds"

definition Atoi :: "string \<Rightarrow> NumError + int" where
  "Atoi s =
     (let (neg, ds) =
        (case s of
           [] \<Rightarrow> (False, s)
         | c # cs \<Rightarrow>
             if c = CHR ''-'' then (True, cs)
             else if c = CHR ''+'' then (False, cs)
             else (False, s))
      in
        if ds = [] \<or> \<not> list_all is_digit ds then Inl ErrSyntax
        else
          let v = (if neg then - int (digits_value ds) else int (digits_value ds))
          in if v < - (2 ^ 63) \<or> 2 ^ 63 \<le> v then Inl ErrRange else Inr v)"

text \<open>
  A request as the handlers read it: the verb, the route variables of the router, the
  headers and the body.  The one header the program reads holds a token string.
\<close>

record Request =
  Method :: string
  Vars :: "string \<rightharpoonup> string"
  Header :: "string \<rightharpoonup> tokenString"
  Body :: string

text \<open>\<^verbatim>\<open>Header.Get\<close> gives the empty string for a header that is absent.\<close>

definition Header_Get :: "(string \<rightharpoonup> tokenString) \<Rightarrow> string \<Rightarrow> tokenString" where
  "Header_Get h key = (case h key of None \<Rightarrow> Undecodable [] | Some v \<Rightarrow> v)"

record ApiError =
  Error :: string

text \<open>
  A value handed to the JSON encoder.  \<open>PDeleted id\<close> is the one-entry map
  \<^verbatim>\<open>{"account deleted successfully with id": id}\<close>; \<open>PApiError e\<close> encodes as
  \<^verbatim>\<open>{"error": ...}\<close> by the field's tag.  A \<^verbatim>\<open>nil\<close> pointer or slice encodes as
  \<^verbatim>\<open>null\<close>.
\<close>

datatype payload =
    PApiError ApiError
  | PAccount "Account option"
  | PAccounts "Account list option"
  | PDeleted int
  | PTransfer TransferRequest

text \<open>
  The response writer: the header map, the status line once written (a second
  \<^verbatim>\<open>WriteHeader\<close> is ignored by \<^verbatim>\<open>net/http\<close>), the values encoded into the body, and
  what \<^verbatim>\<open>json.NewEncoder(w).Encode(v)\<close> returns on this writer for a value: \<^verbatim>\<open>nil\<close>, or
  the error of a value that does not marshal or of a connection that does not take the
  write.
\<close>

record ResponseWriter =
  header :: "string \<rightharpoonup> string"
  status :: "nat option"
  body :: "payload list"
  encode_error :: "payload \<Rightarrow> error option"

definition Header_Set :: "string \<Rightarrow> string \<Rightarrow> ResponseWriter \<Rightarrow> ResponseWriter" where
  "Header_Set k v w = w\<lparr>header := (header w)(k \<mapsto> v)\<rparr>"

definition WriteHeader :: "nat \<Rightarrow> ResponseWriter \<Rightarrow> ResponseWriter" where
  "WriteHeader code w = (if status w = None then w\<lparr>status := Some code\<rparr> else w)"

definition StatusOK :: nat where "StatusOK = 200"
definition StatusBadRequest :: nat where "StatusBadRequest = 400"

text \<open>
  The encoder returns its error and leaves the writer as it is when the value does not
  encode; otherwise it writes the value to the body, and a first write sends the status
  line with 200 when none has been sent.
\<close>

definition Encode :: "payload \<Rightarrow> ResponseWriter \<Rightarrow> error option \<times> ResponseWriter" where
  "Encode v w =
     (case encode_error w v of
        Some err \<Rightarrow> (Some err, w)
      | None \<Rightarrow> (None, (WriteHeader StatusOK w)\<lparr>body := body w @ [v]\<rparr>))"

definition WriteJSON :: "ResponseWriter \<Rightarrow> nat \<Rightarrow> payload \<Rightarrow> error option \<times> ResponseWriter" where
  "WriteJSON w st v =
     Encode v (WriteHeader st (Header_Set ''Content-Type'' ''application/json'' w))"

text \<open>
  What lies outside the program: the process environment, the clock the token library
  reads, the platform's out-of-range float conversion, the JSON decoder applied to a
  request body, and the values \<^verbatim>\<open>NewAccount\<close> generates.
\<close>

record Env =
  JWT_TEST_SECRET :: string
  now :: int
  overflow :: "int \<Rightarrow> int64"
  decodeCreateAccountRequest :: "string \<Rightarrow> error + CreateAccountRequest"
  decodeTransferRequest :: "string \<Rightarrow> error + TransferRequest"
  generated :: Account

text \<open>
  What a run leaves behind besides the response: the database and a trace of the lines
  printed, the store operations called and the calls of a wrapped handler.
\<close>

datatype store_op =
    OpCreateAccount Account
  | OpDeleteAccount int
  | OpGetAccountByID int
  | OpUpdateAccount Account
  | OpGetAllAccounts

datatype event =
    Println string
  | PrintlnToken tokenString
  | StoreCall store_op
  | HandlerCall

record 'db State =
  db :: 'db
  trace :: "event list"

definition log_event :: "event \<Rightarrow> 'db State \<Rightarrow> 'db State" where
  "log_event ev \<sigma> = \<sigma>\<lparr>trace := trace \<sigma> @ [ev]\<rparr>"

definition is_StoreCall :: "event \<Rightarrow> bool" where
  "is_StoreCall ev = (case ev of StoreCall _ \<Rightarrow> True | _ \<Rightarrow> False)"

subsection \<open>\<^verbatim>\<open>storage.go\<close>\<close>

text \<open>The \<^verbatim>\<open>Storage\<close> interface: one function per method, over the database it keeps.\<close>

record 'db Storage =
  CreateAccount :: "Account \<Rightarrow> 'db \<Rightarrow> error option \<times> 'db"
  DeleteAccount :: "int \<Rightarrow> 'db \<Rightarrow> error option \<times> 'db"
  GetAccountByID :: "int \<Rightarrow> 'db \<Rightarrow> (Account option \<times> error option) \<times> 'db"
  UpdateAccount :: "Account \<Rightarrow> 'db \<Rightarrow> error option \<times> 'db"
  GetAllAccounts :: "'db \<Rightarrow> (Account list option \<times> error option) \<times> 'db"

text \<open>
  The SQL driver behind \<^verbatim>\<open>PostgresStorage\<close>: the insert statement of
  \<^verbatim>\<open>CreateAccount\<close>, and the select of \<^verbatim>\<open>GetAllAccounts\<close>, which fails or yields rows,
  each with the outcome of \<^verbatim>\<open>rows.Scan\<close> on it.
\<close>

record 'db SQL =
  Query_insert :: "Account \<Rightarrow> 'db \<Rightarrow> error option \<times> 'db"
  Query_select :: "'db \<Rightarrow> error + (error + Account) list"

definition PostgresStorage_CreateAccount ::
  "'db SQL \<Rightarrow> Account \<Rightarrow> 'db \<Rightarrow> error option \<times> 'db" where
  "PostgresStorage_CreateAccount sql a d = Query_insert sql a d"

definition PostgresStorage_DeleteAccount :: "int \<Rightarrow> 'db \<Rightarrow> error option \<times> 'db" where
  "PostgresStorage_DeleteAccount ident d = (None, d)"

definition PostgresStorage_GetAccountByID ::
  "int \<Rightarrow> 'db \<Rightarrow> (Account option \<times> error option) \<times> 'db" where
  "PostgresStorage_GetAccountByID ident d = ((None, None), d)"

definition PostgresStorage_UpdateAccount :: "Account \<Rightarrow> 'db \<Rightarrow> error option \<times> 'db" where
  "PostgresStorage_UpdateAccount account d = (None, d)"

fun scan_rows :: "(error + Account) list \<Rightarrow> Account list \<Rightarrow> Account list option \<times> error option" where
  "scan_rows [] accounts = (Some accounts, None)"
| "scan_rows (Inl err # rows) accounts = (None, Some err)"
| "scan_rows (Inr a # rows) accounts = scan_rows rows (accounts @ [a])"

definition PostgresStorage_GetAllAccounts ::
  "'db SQL \<Rightarrow> 'db \<Rightarrow> (Account list option \<times> error option) \<times> 'db" where
  "PostgresStorage_GetAllAccounts sql d =
     (case Query_select sql d of
        Inl err \<Rightarrow> ((None, Some err), d)
      | Inr rows \<Rightarrow> (scan_rows rows [], d))"

definition PostgresStorage :: "'db SQL \<Rightarrow> 'db Storage" where
  "PostgresStorage sql =
     \<lparr>CreateAccount = PostgresStorage_CreateAccount sql,
      DeleteAccount = PostgresStorage_DeleteAccount,
      GetAccountByID = PostgresStorage_GetAccountByID,
      UpdateAccount = PostgresStorage_UpdateAccount,
      GetAllAccounts = PostgresStorage_GetAllAccounts sql\<rparr>"

text \<open>A call through the interface, recorded in the trace.\<close>

definition call_CreateAccount ::
  "'db Storage \<Rightarrow> Account \<Rightarrow> 'db State \<Rightarrow> error option \<times> 'db State" where
  "call_CreateAccount s a \<sigma> =
     (let (err, d) = CreateAccount s a (db \<sigma>)
      in (err, log_event (StoreCall (OpCreateAccount a)) (\<sigma>\<lparr>db := d\<rparr>)))"

definition call_DeleteAccount ::
  "'db Storage \<Rightarrow> int \<Rightarrow> 'db State \<Rightarrow> error option \<times> 'db State" where
  "call_DeleteAccount s ident \<sigma> =
     (let (err, d) = DeleteAccount s ident (db \<sigma>)
      in (err, log_event (StoreCall (OpDeleteAccount ident)) (\<sigma>\<lparr>db := d\<rparr>)))"

definition call_GetAccountByID ::
  "'db Storage \<Rightarrow> int \<Rightarrow> 'db State \<Rightarrow> (Account option \<times> error option) \<times> 'db State" where
  "call_GetAccountByID s ident \<sigma> =
     (let (res, d) = GetAccountByID s ident (db \<sigma>)
      in (res, log_event (StoreCall (OpGetAccountByID ident)) (\<sigma>\<lparr>db := d\<rparr>)))"

definition call_GetAllAccounts ::
  "'db Storage \<Rightarrow> 'db State \<Rightarrow> (Account list option \<times> error option) \<times> 'db State" where
  "call_GetAllAccounts s \<sigma> =
     (let (res, d) = GetAllAccounts s (db \<sigma>)
      in (res, log_event (StoreCall OpGetAllAccounts) (\<sigma>\<lparr>db := d\<rparr>)))"

subsection \<open>\<^verbatim>\<open>api.go\<close>: tokens\<close>

text \<open>
  \<^verbatim>\<open>createJWT\<close>: the claims \<^verbatim>\<open>expiresAt\<close> and \<^verbatim>\<open>accountNumber\<close>, signed with HS256
  under the secret of the environment.
\<close>

definition createJWT :: "Env \<Rightarrow> Account \<Rightarrow> error + tokenString" where
  "createJWT env account =
     (let secret = JWT_TEST_SECRET env;
          claims = [(''accountNumber'', JNumber (sint (Number account))),
                    (''expiresAt'', JNumber 15000)]
      in SignedString ''HS256'' claims secret)"

text \<open>
  The text \<^verbatim>\<open>%v\<close> prints for a header entry.  The library calls the key callback only
  on a token whose \<^verbatim>\<open>alg\<close> is a string; the text of a number or a compound value is not
  spelled out.
\<close>

definition Sprint :: "any option \<Rightarrow> string" where
  "Sprint v =
     (case v of
        None \<Rightarrow> ''<nil>''
      | Some INil \<Rightarrow> ''<nil>''
      | Some (IBool b) \<Rightarrow> (if b then ''true'' else ''false'')
      | Some (IString s) \<Rightarrow> s
      | Some _ \<Rightarrow> ''...'')"

text \<open>The callback \<^verbatim>\<open>validateJWT\<close> hands to \<^verbatim>\<open>jwt.Parse\<close>.\<close>

definition keyFunc :: "string \<Rightarrow> Token \<Rightarrow> error + string" where
  "keyFunc secret token =
     (case tok_Method token of
        SigningMethodHMAC alg \<Rightarrow> Inr secret
      | _ \<Rightarrow> Inl (''unexpected signing method: '' @ Sprint (tok_Header token ''alg'')))"

definition validateJWT :: "Env \<Rightarrow> tokenString \<Rightarrow> error + Token" where
  "validateJWT env tokenString =
     (let secret = JWT_TEST_SECRET env
      in Parse (now env) tokenString (keyFunc secret))"

subsection \<open>\<^verbatim>\<open>api.go\<close>: handlers\<close>

definition getId :: "Request \<Rightarrow> error + int" where
  "getId r =
     (let idStr = (case Vars r ''id'' of None \<Rightarrow> [] | Some v \<Rightarrow> v)
      in case Atoi idStr of
           Inl err \<Rightarrow> Inl (''invalid id provided: '' @ [CHR 0x27] @ idStr @ [CHR 0x27])
         | Inr ident \<Rightarrow> Inr ident)"

text \<open>
  An \<^verbatim>\<open>apiFunc\<close> takes the writer, the request and the state and returns its error
  beside the writer and state it leaves.
\<close>

type_synonym 'db apiFunc =
  "ResponseWriter \<Rightarrow> Request \<Rightarrow> 'db State \<Rightarrow> error option \<times> ResponseWriter \<times> 'db State"

definition handleGetAllAccounts :: "'db Storage \<Rightarrow> 'db apiFunc" where
  "handleGetAllAccounts s w r \<sigma> =
     (case call_GetAllAccounts s \<sigma> of
        ((accounts, Some err), \<sigma>') \<Rightarrow> (Some err, w, \<sigma>')
      | ((accounts, None), \<sigma>') \<Rightarrow>
          (case WriteJSON w StatusOK (PAccounts accounts) of (e, w') \<Rightarrow> (e, w', \<sigma>')))"

definition handleCreateAccount :: "Env \<Rightarrow> 'db Storage \<Rightarrow> 'db apiFunc" where
  "handleCreateAccount env s w r \<sigma> =
     (case decodeCreateAccountRequest env (Body r) of
        Inl err \<Rightarrow> (Some err, w, \<sigma>)
      | Inr req \<Rightarrow>
          (let account = NewAccount (generated env) (req_FirstName req) (req_LastName req)
           in case call_CreateAccount s account \<sigma> of
                (Some err, \<sigma>') \<Rightarrow> (Some err, w, \<sigma>')
              | (None, \<sigma>') \<Rightarrow>
                  (case createJWT env account of
                     Inl err \<Rightarrow> (Some err, w, \<sigma>')
                   | Inr tokenString \<Rightarrow>
                       (case WriteJSON w StatusOK (PAccount (Some account)) of
                          (e, w') \<Rightarrow> (e, w', log_event (PrintlnToken tokenString) \<sigma>')))))"

definition handleAccount :: "Env \<Rightarrow> 'db Storage \<Rightarrow> 'db apiFunc" where
  "handleAccount env s w r \<sigma> =
     (if Method r = ''GET'' then handleGetAllAccounts s w r \<sigma>
      else if Method r = ''POST'' then handleCreateAccount env s w r \<sigma>
      else (Some (''method not allowed, '' @ Method r), w, \<sigma>))"

definition handleDeleteAccount :: "'db Storage \<Rightarrow> 'db apiFunc" where
  "handleDeleteAccount s w r \<sigma> =
     (case getId r of
        Inl err \<Rightarrow> (Some err, w, \<sigma>)
      | Inr ident \<Rightarrow>
          (case call_GetAccountByID s ident \<sigma> of
             ((account, Some err), \<sigma>') \<Rightarrow>
               (Some (''error occured while deleting account details: '' @ err), w, \<sigma>')
           | ((account, None), \<sigma>') \<Rightarrow>
               (case call_DeleteAccount s ident \<sigma>' of
                  (Some err, \<sigma>'') \<Rightarrow> (Some err, w, \<sigma>'')
                | (None, \<sigma>'') \<Rightarrow>
                    (case WriteJSON w StatusOK (PDeleted ident) of
                       (e, w') \<Rightarrow> (e, w', \<sigma>'')))))"

definition handleAccountByID :: "'db Storage \<Rightarrow> 'db apiFunc" where
  "handleAccountByID s w r \<sigma> =
     (if Method r = ''GET'' then
        (case getId r of
           Inl err \<Rightarrow> (Some err, w, \<sigma>)
         | Inr ident \<Rightarrow>
             (case call_GetAccountByID s ident \<sigma> of
                ((account, Some err), \<sigma>') \<Rightarrow>
                  (Some (''error occured while fetching account details: '' @ err), w, \<sigma>')
              | ((account, None), \<sigma>') \<Rightarrow>
                  (case WriteJSON w StatusOK (PAccount account) of
                     (e, w') \<Rightarrow> (e, w', \<sigma>'))))
      else if Method r = ''DELETE'' then handleDeleteAccount s w r \<sigma>
      else (Some (''method not allowed, '' @ Method r), w, \<sigma>))"

definition handleTransfer :: "Env \<Rightarrow> 'db apiFunc" where
  "handleTransfer env w r \<sigma> =
     (if Method r \<noteq> ''POST'' then (Some (''method not allowed, '' @ Method r), w, \<sigma>)
      else
        (case decodeTransferRequest env (Body r) of
           Inl err \<Rightarrow> (Some err, w, \<sigma>)
         | Inr transferRequest \<Rightarrow>
             (case WriteJSON w StatusOK (PTransfer transferRequest) of
                (e, w') \<Rightarrow> (e, w', \<sigma>))))"

subsection \<open>\<^verbatim>\<open>api.go\<close>: the wrappers\<close>

text \<open>
  An \<^verbatim>\<open>http.HandlerFunc\<close> returns nothing; it either returns or panics, and leaves the
  writer and the state as they are at that point.
\<close>

datatype panic = NilPointerDereference | InterfaceConversion

datatype outcome = Returned | Panicked panic

type_synonym 'db HandlerFunc =
  "ResponseWriter \<Rightarrow> Request \<Rightarrow> 'db State \<Rightarrow> outcome \<times> ResponseWriter \<times> 'db State"

definition makeHTTPHandlerFunc :: "'db apiFunc \<Rightarrow> 'db HandlerFunc" where
  "makeHTTPHandlerFunc f w r \<sigma> =
     (case f w r \<sigma> of
        (Some err, w', \<sigma>') \<Rightarrow>
          (Returned, snd (WriteJSON w' StatusBadRequest (PApiError \<lparr>Error = err\<rparr>)), \<sigma>')
      | (None, w', \<sigma>') \<Rightarrow> (Returned, w', \<sigma>'))"

definition permissionDenied :: "ResponseWriter \<Rightarrow> ResponseWriter" where
  "permissionDenied w = snd (WriteJSON w StatusOK (PApiError \<lparr>Error = ''permission denied''\<rparr>))"

text \<open>
  \<^verbatim>\<open>withJWTAuth\<close>.  The comparison reads \<^verbatim>\<open>account.Number\<close> first, which panics on a
  \<^verbatim>\<open>nil\<close> account, then asserts that the claim is a \<^verbatim>\<open>float64\<close>, which panics when the
  claim is absent or of another type.
\<close>

definition withJWTAuth :: "Env \<Rightarrow> 'db HandlerFunc \<Rightarrow> 'db Storage \<Rightarrow> 'db HandlerFunc" where
  "withJWTAuth env handlerFunc s w r \<sigma> =
     (let \<sigma>0 = log_event (Println ''calling JWT middlewares'') \<sigma> in
      case validateJWT env (Header_Get (Header r) ''x-jwt-token'') of
        Inl err \<Rightarrow> (Returned, permissionDenied w, \<sigma>0)
      | Inr token \<Rightarrow>
          if \<not> tok_Valid token then (Returned, permissionDenied w, \<sigma>0)
          else
            (case getId r of
               Inl err \<Rightarrow> (Returned, permissionDenied w, \<sigma>0)
             | Inr ident \<Rightarrow>
                 (case call_GetAccountByID s ident \<sigma>0 of
                    ((account, Some err), \<sigma>1) \<Rightarrow> (Returned, permissionDenied w, \<sigma>1)
                  | ((account, None), \<sigma>1) \<Rightarrow>
                      (case account of
                         None \<Rightarrow> (Panicked NilPointerDereference, w, \<sigma>1)
                       | Some a \<Rightarrow>
                           (case tok_Claims token ''accountNumber'' of
                              Some (IFloat64 f) \<Rightarrow>
                                if Number a \<noteq> int64_of_float64 (overflow env) f
                                then (Returned, permissionDenied w, \<sigma>1)
                                else handlerFunc w r (log_event HandlerCall \<sigma>1)
                            | _ \<Rightarrow> (Panicked InterfaceConversion, w, \<sigma>1))))))"

text \<open>The three routes \<^verbatim>\<open>Run\<close> registers.\<close>

definition route_account :: "Env \<Rightarrow> 'db Storage \<Rightarrow> 'db HandlerFunc" where
  "route_account env s = makeHTTPHandlerFunc (handleAccount env s)"

definition route_account_id :: "Env \<Rightarrow> 'db Storage \<Rightarrow> 'db HandlerFunc" where
  "route_account_id env s = withJWTAuth env (makeHTTPHandlerFunc (handleAccountByID s)) s"

definition route_transfer :: "Env \<Rightarrow> 'db HandlerFunc" where
  "route_transfer env = makeHTTPHandlerFunc (handleTransfer env)"

subsection \<open>A store in memory and concrete inputs\<close>

text \<open>
  The interface has one implementation in the repository.  To run the handlers against a
  store that does resolve accounts, and to instantiate the theorems below, here is a second
  one that keeps the accounts in a list, with a driver for \<^verbatim>\<open>PostgresStorage\<close> over the
  same list (it numbers the rows as the serial column does), an environment whose decoder
  fails on an empty body, a fresh response writer and the requests of the scenarios.
\<close>

definition memStorage :: "Account list Storage" where
  "memStorage =
     \<lparr>CreateAccount = (\<lambda>a d. (None, d @ [a])),
      DeleteAccount = (\<lambda>i d. (None, filter (\<lambda>a. ID a \<noteq> i) d)),
      GetAccountByID = (\<lambda>i d.
        case find (\<lambda>a. ID a = i) d of
          None \<Rightarrow> ((None, Some ''account not found''), d)
        | Some a \<Rightarrow> ((Some a, None), d)),
      UpdateAccount = (\<lambda>a d. (None, map (\<lambda>b. if ID b = ID a then a else b) d)),
      GetAllAccounts = (\<lambda>d. ((Some d, None), d))\<rparr>"

definition listSQL :: "Account list SQL" where
  "listSQL =
     \<lparr>Query_insert = (\<lambda>a d. (None, d @ [a\<lparr>ID := int (length d) + 1\<rparr>])),
      Query_select = (\<lambda>d. Inr (map Inr d))\<rparr>"

definition account_with :: "int \<Rightarrow> int64 \<Rightarrow> Account" where
  "account_with i n =
     \<lparr>ID = i, FirstName = ''Ada'', LastName = ''Lovelace'', Number = n, Balance = 0,
      CreatedAt = 0\<rparr>"

definition testEnv :: Env where
  "testEnv =
     \<lparr>JWT_TEST_SECRET = ''hunter2'', now = 1700000000, overflow = (\<lambda>f. 0),
      decodeCreateAccountRequest =
        (\<lambda>b. if b = [] then Inl ''EOF''
             else Inr \<lparr>req_FirstName = ''Ada'', req_LastName = ''Lovelace''\<rparr>),
      decodeTransferRequest =
        (\<lambda>b. if b = [] then Inl ''EOF'' else Inr \<lparr>ToAccount = 43, Amount = 100\<rparr>),
      generated = account_with 0 42\<rparr>"

definition newRecorder :: ResponseWriter where
  "newRecorder =
     \<lparr>header = Map.empty, status = None, body = [], encode_error = (\<lambda>v. None)\<rparr>"

text \<open>A fresh writer on a connection that takes no write.\<close>

definition brokenRecorder :: ResponseWriter where
  "brokenRecorder =
     \<lparr>header = Map.empty, status = None, body = [],
      encode_error = (\<lambda>v. Some ''write: broken pipe'')\<rparr>"

definition state_of :: "'db \<Rightarrow> 'db State" where
  "state_of d = \<lparr>db = d, trace = []\<rparr>"

definition request_with :: "string \<Rightarrow> string \<Rightarrow> tokenString option \<Rightarrow> Request" where
  "request_with verb ident t =
     \<lparr>Method = verb, Vars = [''id'' \<mapsto> ident],
      Header = (\<lambda>k. if k = ''x-jwt-token'' then t else None), Body = []\<rparr>"

definition quoted :: "string \<Rightarrow> string" where
  "quoted s = [CHR 0x22] @ s @ [CHR 0x22]"

definition adaBody :: string where
  "adaBody = ''{'' @ quoted ''firstName'' @ '':'' @ quoted ''Ada'' @ '','' @
             quoted ''lastName'' @ '':'' @ quoted ''Lovelace'' @ ''}''"

definition list_request :: Request where
  "list_request = \<lparr>Method = ''GET'', Vars = Map.empty, Header = Map.empty, Body = []\<rparr>"

definition post_request :: "string \<Rightarrow> Request" where
  "post_request b = \<lparr>Method = ''POST'', Vars = Map.empty, Header = Map.empty, Body = b\<rparr>"

text \<open>The token \<^verbatim>\<open>createJWT\<close> issues for an account number under a secret.\<close>

definition issued :: "string \<Rightarrow> int64 \<Rightarrow> tokenString" where
  "issued secret n =
     Segments [(''alg'', JString ''HS256''), (''typ'', JString ''JWT'')]
       [(''accountNumber'', JNumber (sint n)), (''expiresAt'', JNumber 15000)]
       (HMAC ''HS256'' secret [(''alg'', JString ''HS256''), (''typ'', JString ''JWT'')]
          [(''accountNumber'', JNumber (sint n)), (''expiresAt'', JNumber 15000)])"

text \<open>
  A token with the algorithm \<^verbatim>\<open>RS256\<close> in its header, and one signed under the secret
  whose claims carry no account number.
\<close>

definition rsaToken :: tokenString where
  "rsaToken =
     Segments [(''alg'', JString ''RS256''), (''typ'', JString ''JWT'')]
       [(''accountNumber'', JNumber 42)] (OtherBytes ''sig'')"

definition bareToken :: "string \<Rightarrow> tokenString" where
  "bareToken secret =
     Segments [(''alg'', JString ''HS256''), (''typ'', JString ''JWT'')] []
       (HMAC ''HS256'' secret [(''alg'', JString ''HS256''), (''typ'', JString ''JWT'')] [])"

section \<open>Facts about the model\<close>

subsection \<open>Rounding to float64\<close>

lemma bitlen_le_iff: "bitlen n \<le> k \<longleftrightarrow> n < 2 ^ k"
proof (induction n arbitrary: k rule: bitlen.induct)
  case (1 n)
  show ?case
  proof (cases "n = 0")
    case True
    then show ?thesis by (simp add: bitlen.simps)
  next
    case False
    show ?thesis
    proof (cases k)
      case 0
      with False show ?thesis by (simp add: bitlen.simps [of n])
    next
      case (Suc j)
      have "bitlen n \<le> Suc j \<longleftrightarrow> bitlen (n div 2) \<le> j"
        using False by (simp add: bitlen.simps [of n])
      also have "\<dots> \<longleftrightarrow> n div 2 < 2 ^ j" using 1 False by simp
      also have "\<dots> \<longleftrightarrow> n < 2 ^ Suc j" by auto
      finally show ?thesis using Suc by simp
    qed
  qed
qed

lemma bitlen_eqI: "2 ^ k \<le> n \<Longrightarrow> n < 2 ^ Suc k \<Longrightarrow> bitlen n = Suc k"
proof -
  assume lo: "2 ^ k \<le> n" and hi: "n < 2 ^ Suc k"
  have "bitlen n \<le> Suc k" using hi by (simp only: bitlen_le_iff)
  moreover have "\<not> bitlen n \<le> k" using lo by (simp only: bitlen_le_iff not_less)
  ultimately show ?thesis by linarith
qed

lemma bitlen_pow53: "bitlen 9007199254740992 = 54"
  using bitlen_eqI [of 53 9007199254740992] by simp

lemma float64_of_int_exact:
  assumes "\<bar>n\<bar> \<le> 2 ^ 53"
  shows "float64_of_int n = n"
proof (cases "\<bar>n\<bar> < 2 ^ 53")
  case True
  then have "nat \<bar>n\<bar> < 2 ^ 53" by (simp add: nat_less_iff)
  then have "bitlen (nat \<bar>n\<bar>) \<le> 53" by (simp only: bitlen_le_iff)
  then show ?thesis by (simp add: float64_of_int_def Let_def)
next
  case False
  with assms have "\<bar>n\<bar> = 9007199254740992" by simp
  then have "n = 9007199254740992 \<or> n = - 9007199254740992" by linarith
  then show ?thesis
  proof
    assume "n = 9007199254740992"
    then show ?thesis by (simp add: float64_of_int_def bitlen_pow53 Let_def)
  next
    assume "n = - 9007199254740992"
    then show ?thesis by (simp add: float64_of_int_def bitlen_pow53 Let_def)
  qed
qed

lemma float64_tie: "float64_of_int 9007199254740993 = 9007199254740992"
proof -
  have b: "bitlen 9007199254740993 = 54"
    using bitlen_eqI [of 53 9007199254740993] by simp
  show ?thesis by (simp add: float64_of_int_def b Let_def)
qed


lemma float64_of_int_bound: "\<bar>float64_of_int n\<bar> \<le> 2 ^ bitlen (nat \<bar>n\<bar>)"
proof (cases "bitlen (nat \<bar>n\<bar>) \<le> 53")
  case True
  have "nat \<bar>n\<bar> < 2 ^ bitlen (nat \<bar>n\<bar>)"
    using bitlen_le_iff [of "nat \<bar>n\<bar>" "bitlen (nat \<bar>n\<bar>)"] by simp
  then have "\<bar>n\<bar> < 2 ^ bitlen (nat \<bar>n\<bar>)"
    by (metis nat_less_iff abs_ge_zero of_nat_numeral of_nat_power)
  with True show ?thesis by (simp add: float64_of_int_def Let_def)
next
  case False
  define a where "a = nat \<bar>n\<bar>"
  define e where "e = bitlen a - 53"
  define q where "q = a div 2 ^ e"
  define q' where "q' = (if 2 ^ (e - 1) < a mod 2 ^ e \<or> (a mod 2 ^ e = 2 ^ (e - 1) \<and> odd q) then q + 1 else q)"
  from False have L: "bitlen a = 53 + e" by (simp add: a_def e_def)
  have "a < 2 ^ bitlen a" using bitlen_le_iff [of a "bitlen a"] by simp
  then have "a < 2 ^ 53 * 2 ^ e" by (simp add: L power_add)
  then have "q < 2 ^ 53" unfolding q_def
    by (simp add: less_mult_imp_div_less)
  then have "q' \<le> 2 ^ 53" by (simp add: q'_def)
  then have "q' * 2 ^ e \<le> 2 ^ 53 * 2 ^ e" by (rule mult_right_mono) simp
  then have le: "q' * 2 ^ e \<le> 2 ^ bitlen a" by (simp add: L power_add)
  have "float64_of_int n = sgn n * int (q' * 2 ^ e)"
    using False by (simp add: float64_of_int_def Let_def a_def e_def q_def q'_def)
  then have "\<bar>float64_of_int n\<bar> \<le> int (q' * 2 ^ e)"
    by (simp add: abs_mult abs_sgn_eq)
  also have "\<dots> \<le> int (2 ^ bitlen a)" using le by (simp only: of_nat_le_iff)
  finally show ?thesis by (simp add: a_def)
qed

lemma float64_finite_sint: "float64_finite (sint (x :: 64 word))"
proof -
  have "\<bar>sint x\<bar> \<le> 2 ^ 63"
    using sint_ge [of x] sint_lt [of x] by simp
  then have "nat \<bar>sint x\<bar> < 2 ^ 64" by (simp add: nat_less_iff)
  then have "bitlen (nat \<bar>sint x\<bar>) \<le> 64" by (simp only: bitlen_le_iff)
  then have "(2::int) ^ bitlen (nat \<bar>sint x\<bar>) \<le> 2 ^ 64"
    by (rule power_increasing) simp
  with float64_of_int_bound [of "sint x"] have "\<bar>float64_of_int (sint x)\<bar> \<le> 2 ^ 64"
    by linarith
  moreover have "(2::int) ^ 64 < 2 ^ 1024" by (rule power_strict_increasing) simp_all
  ultimately show ?thesis unfolding float64_finite_def by linarith
qed

lemma float64_15000: "float64_of_int 15000 = 15000"
  by (rule float64_of_int_exact) simp

lemma float64_finite_15000: "float64_finite 15000"
  by (simp add: float64_finite_def float64_15000)


subsection \<open>A token issued by \<^verbatim>\<open>createJWT\<close> validates\<close>

lemma createJWT_eq:
  "createJWT env a =
     Inr (Segments [(''alg'', JString ''HS256''), (''typ'', JString ''JWT'')]
            [(''accountNumber'', JNumber (sint (Number a))), (''expiresAt'', JNumber 15000)]
            (HMAC ''HS256'' (JWT_TEST_SECRET env)
               [(''alg'', JString ''HS256''), (''typ'', JString ''JWT'')]
               [(''accountNumber'', JNumber (sint (Number a))), (''expiresAt'', JNumber 15000)]))"
  by (simp add: createJWT_def SignedString_def Let_def)

lemma ParseUnverified_createJWT:
  assumes "createJWT env0 a = Inr t"
  shows "ParseUnverified t =
     Inr \<lparr>tok_Method = SigningMethodHMAC ''HS256'',
          tok_Header = unmarshal_object [(''alg'', JString ''HS256''), (''typ'', JString ''JWT'')],
          tok_Claims = unmarshal_object
            [(''accountNumber'', JNumber (sint (Number a))), (''expiresAt'', JNumber 15000)],
          tok_Signature = HMAC ''HS256'' (JWT_TEST_SECRET env0)
               [(''alg'', JString ''HS256''), (''typ'', JString ''JWT'')]
               [(''accountNumber'', JNumber (sint (Number a))), (''expiresAt'', JNumber 15000)],
          tok_Valid = False\<rparr>"
  using assms
  by (auto simp add: createJWT_eq ParseUnverified_def unmarshal_object_def GetSigningMethod_def
      float64_finite_sint float64_finite_15000)

lemma validateJWT_createJWT:
  assumes "createJWT env0 a = Inr t" and "JWT_TEST_SECRET env = JWT_TEST_SECRET env0"
  shows "\<exists>token. validateJWT env t = Inr token \<and> tok_Valid token \<and>
           tok_Claims token ''accountNumber'' = Some (IFloat64 (float64_of_int (sint (Number a))))"
proof -
  have t: "t = Segments [(''alg'', JString ''HS256''), (''typ'', JString ''JWT'')]
            [(''accountNumber'', JNumber (sint (Number a))), (''expiresAt'', JNumber 15000)]
            (HMAC ''HS256'' (JWT_TEST_SECRET env0)
               [(''alg'', JString ''HS256''), (''typ'', JString ''JWT'')]
               [(''accountNumber'', JNumber (sint (Number a))), (''expiresAt'', JNumber 15000)])"
    using assms(1) by (simp add: createJWT_eq)
  show ?thesis
    unfolding validateJWT_def Parse_def Let_def ParseUnverified_createJWT [OF assms(1)]
    by (simp add: t keyFunc_def Verify_def Validate_def verifyExpiresAt_def verifyNotBefore_def
        unmarshal_object_def assms(2))
qed

lemma createJWT_issued: "createJWT env a = Inr (issued (JWT_TEST_SECRET env) (Number a))"
  by (simp add: createJWT_eq issued_def)

subsection \<open>Writing a response\<close>

lemma WriteJSON_eq:
  "WriteJSON w st v =
     (encode_error w v,
      (WriteHeader st (Header_Set ''Content-Type'' ''application/json'' w))
        \<lparr>body := (if encode_error w v = None then body w @ [v] else body w)\<rparr>)"
  by (simp add: WriteJSON_def Encode_def WriteHeader_def Header_Set_def split: option.splits)

lemma fst_WriteJSON: "fst (WriteJSON w st v) = encode_error w v"
  by (simp add: WriteJSON_eq)

lemma status_WriteJSON:
  "status w = None \<Longrightarrow> status (snd (WriteJSON w st v)) = Some st"
  by (simp add: WriteJSON_eq WriteHeader_def Header_Set_def)

lemma status_WriteJSON_sent:
  "status w = Some st' \<Longrightarrow> status (snd (WriteJSON w st v)) = Some st'"
  by (simp add: WriteJSON_eq WriteHeader_def Header_Set_def)

lemma body_WriteJSON:
  "body (snd (WriteJSON w st v)) = (if encode_error w v = None then body w @ [v] else body w)"
  by (simp add: WriteJSON_eq)

lemma encode_error_WriteJSON: "encode_error (snd (WriteJSON w st v)) = encode_error w"
  by (simp add: WriteJSON_eq WriteHeader_def Header_Set_def)

lemma body_permissionDenied:
  "body (permissionDenied w) =
     (if encode_error w (PApiError \<lparr>Error = ''permission denied''\<rparr>) = None
      then body w @ [PApiError \<lparr>Error = ''permission denied''\<rparr>] else body w)"
  by (simp add: permissionDenied_def body_WriteJSON)

lemma status_permissionDenied:
  "status w = None \<Longrightarrow> status (permissionDenied w) = Some 200"
  by (simp add: permissionDenied_def status_WriteJSON StatusOK_def)

subsection \<open>The branches of the middleware\<close>

lemma GetSigningMethod_HMAC:
  "GetSigningMethod alg = Some (SigningMethodHMAC x) \<Longrightarrow> alg \<in> {''HS256'', ''HS384'', ''HS512''}"
  by (simp add: GetSigningMethod_def split: if_splits)

lemma keyFunc_not_HMAC:
  "(\<forall>x. tok_Method token \<noteq> SigningMethodHMAC x) \<Longrightarrow>
   keyFunc secret token = Inl (''unexpected signing method: '' @ Sprint (tok_Header token ''alg''))"
  by (cases "tok_Method token") (simp_all add: keyFunc_def)

lemma ParseUnverified_Method:
  assumes "ParseUnverified (Segments hdr cl sg) = Inr token"
    and "unmarshal_object hdr ''alg'' = Some (IString alg)"
  shows "GetSigningMethod alg = Some (tok_Method token)"
  using assms
  by (auto simp add: ParseUnverified_def split: if_splits option.splits)

lemma withJWTAuth_invalid:
  assumes "validateJWT env (Header_Get (Header r) ''x-jwt-token'') = Inl e"
  shows "withJWTAuth env handlerFunc s w r \<sigma> =
           (Returned, permissionDenied w,
            \<sigma>\<lparr>trace := trace \<sigma> @ [Println ''calling JWT middlewares'']\<rparr>)"
  using assms by (simp add: withJWTAuth_def log_event_def)

lemma ParseUnverified_rsaToken:
  "\<exists>token. ParseUnverified rsaToken = Inr token"
  by (simp add: rsaToken_def ParseUnverified_def unmarshal_object_def GetSigningMethod_def
      float64_finite_def float64_of_int_exact)

lemma withJWTAuth_valid:
  assumes "validateJWT env (Header_Get (Header r) ''x-jwt-token'') = Inr token"
    and "tok_Valid token" and "getId r = Inr ident"
    and "GetAccountByID s ident (db \<sigma>) = ((account, err), d)"
  shows "withJWTAuth env handlerFunc s w r \<sigma> =
     (let \<sigma>1 = \<sigma>\<lparr>db := d, trace := trace \<sigma> @
                  [Println ''calling JWT middlewares'', StoreCall (OpGetAccountByID ident)]\<rparr>
      in case err of
           Some e \<Rightarrow> (Returned, permissionDenied w, \<sigma>1)
         | None \<Rightarrow>
             (case account of
                None \<Rightarrow> (Panicked NilPointerDereference, w, \<sigma>1)
              | Some a \<Rightarrow>
                  (case tok_Claims token ''accountNumber'' of
                     Some (IFloat64 f) \<Rightarrow>
                       if Number a \<noteq> int64_of_float64 (overflow env) f
                       then (Returned, permissionDenied w, \<sigma>1)
                       else handlerFunc w r (\<sigma>1\<lparr>trace := trace \<sigma>1 @ [HandlerCall]\<rparr>)
                   | _ \<Rightarrow> (Panicked InterfaceConversion, w, \<sigma>1))))"
  using assms
  by (simp add: withJWTAuth_def call_GetAccountByID_def log_event_def Let_def
      split: option.splits any.splits)

lemma withJWTAuth_bad_id:
  assumes "getId r = Inl e"
  shows "withJWTAuth env handlerFunc s w r \<sigma> =
           (Returned, permissionDenied w,
            \<sigma>\<lparr>trace := trace \<sigma> @ [Println ''calling JWT middlewares'']\<rparr>)"
  using assms by (simp add: withJWTAuth_def log_event_def Let_def split: sum.splits)

lemma withJWTAuth_not_Valid:
  assumes "validateJWT env (Header_Get (Header r) ''x-jwt-token'') = Inr token"
    and "\<not> tok_Valid token"
  shows "withJWTAuth env handlerFunc s w r \<sigma> =
           (Returned, permissionDenied w,
            \<sigma>\<lparr>trace := trace \<sigma> @ [Println ''calling JWT middlewares'']\<rparr>)"
  using assms by (simp add: withJWTAuth_def log_event_def)

subsection \<open>The concrete inputs\<close>

lemma getId_1: "getId (request_with verb ''1'' t) = Inr 1"
  by (simp add: getId_def Atoi_def is_digit_def digits_value_def request_with_def)

lemma getId_7: "getId (request_with verb ''7'' t) = Inr 7"
  by (simp add: getId_def Atoi_def is_digit_def digits_value_def request_with_def)

lemma getId_abc: "getId (request_with verb ''abc'' t) = Inl (''invalid id provided: '' @ [CHR 0x27] @ ''abc'' @ [CHR 0x27])"
  by (simp add: getId_def Atoi_def is_digit_def digits_value_def request_with_def)

lemma Header_Get_request_with:
  "Header_Get (Header (request_with verb ident t)) ''x-jwt-token'' =
     (case t of None \<Rightarrow> Undecodable [] | Some v \<Rightarrow> v)"
  by (simp add: Header_Get_def request_with_def)

lemma validateJWT_issued:
  "\<exists>token. validateJWT env (issued (JWT_TEST_SECRET env) n) = Inr token \<and> tok_Valid token \<and>
           tok_Claims token ''accountNumber'' = Some (IFloat64 (float64_of_int (sint n)))"
  using validateJWT_createJWT [of env "\<lparr>ID = 0, FirstName = [], LastName = [], Number = n,
      Balance = 0, CreatedAt = 0\<rparr>" "issued (JWT_TEST_SECRET env) n" env]
  by (simp add: createJWT_issued)

lemma validateJWT_empty: "validateJWT env (Undecodable []) = Inl ''token is malformed''"
  by (simp add: validateJWT_def Parse_def ParseUnverified_def)

subsection \<open>Handlers that fail or succeed\<close>

text \<open>
  A handler that returns an error has either written nothing, or has sent status 200 and
  returns the error of the encoder.
\<close>

lemma handleGetAllAccounts_error:
  "handleGetAllAccounts s w r \<sigma> = (Some err, w', \<sigma>') \<Longrightarrow>
   w' = w \<or> (\<exists>v. w' = snd (WriteJSON w StatusOK v) \<and> encode_error w v = Some err)"
  by (auto simp add: handleGetAllAccounts_def WriteJSON_eq split: prod.splits option.splits)

lemma handleCreateAccount_error:
  "handleCreateAccount env s w r \<sigma> = (Some err, w', \<sigma>') \<Longrightarrow>
   w' = w \<or> (\<exists>v. w' = snd (WriteJSON w StatusOK v) \<and> encode_error w v = Some err)"
  by (auto simp add: handleCreateAccount_def WriteJSON_eq Let_def
      split: prod.splits option.splits sum.splits)

lemma handleAccount_error:
  "handleAccount env s w r \<sigma> = (Some err, w', \<sigma>') \<Longrightarrow>
   w' = w \<or> (\<exists>v. w' = snd (WriteJSON w StatusOK v) \<and> encode_error w v = Some err)"
  using handleGetAllAccounts_error [of s w r \<sigma> err w' \<sigma>']
    handleCreateAccount_error [of env s w r \<sigma> err w' \<sigma>']
  by (auto simp add: handleAccount_def split: if_splits)

lemma handleDeleteAccount_error:
  "handleDeleteAccount s w r \<sigma> = (Some err, w', \<sigma>') \<Longrightarrow>
   w' = w \<or> (\<exists>v. w' = snd (WriteJSON w StatusOK v) \<and> encode_error w v = Some err)"
  by (auto simp add: handleDeleteAccount_def WriteJSON_eq
      split: prod.splits option.splits sum.splits)

lemma handleAccountByID_error:
  "handleAccountByID s w r \<sigma> = (Some err, w', \<sigma>') \<Longrightarrow>
   w' = w \<or> (\<exists>v. w' = snd (WriteJSON w StatusOK v) \<and> encode_error w v = Some err)"
  using handleDeleteAccount_error [of s w r \<sigma> err w' \<sigma>']
  by (auto simp add: handleAccountByID_def WriteJSON_eq
      split: if_splits prod.splits option.splits sum.splits)

lemma handleTransfer_error:
  "handleTransfer env w r \<sigma> = (Some err, w', \<sigma>') \<Longrightarrow>
   w' = w \<or> (\<exists>v. w' = snd (WriteJSON w StatusOK v) \<and> encode_error w v = Some err)"
  by (auto simp add: handleTransfer_def WriteJSON_eq
      split: if_splits prod.splits option.splits sum.splits)

text \<open>
  An error returned before anything was written is answered with status 400 and the
  error's message, when the writer takes the answer.
\<close>

lemma makeHTTPHandlerFunc_error:
  assumes "f w r \<sigma> = (Some err, w', \<sigma>')"
    and "status w' = None"
    and "encode_error w' (PApiError \<lparr>Error = err\<rparr>) = None"
  shows "fst (makeHTTPHandlerFunc f w r \<sigma>) = Returned \<and>
         status (fst (snd (makeHTTPHandlerFunc f w r \<sigma>))) = Some 400 \<and>
         body (fst (snd (makeHTTPHandlerFunc f w r \<sigma>))) = body w' @ [PApiError \<lparr>Error = err\<rparr>] \<and>
         snd (snd (makeHTTPHandlerFunc f w r \<sigma>)) = \<sigma>'"
  using assms
  by (simp add: makeHTTPHandlerFunc_def status_WriteJSON body_WriteJSON StatusBadRequest_def)

lemma handleAccountByID_success:
  "status w = None \<Longrightarrow> handleAccountByID s w r \<sigma> = (None, w', \<sigma>') \<Longrightarrow>
   status w' = Some StatusOK"
  by (auto simp add: handleAccountByID_def handleDeleteAccount_def WriteJSON_eq WriteHeader_def
      Header_Set_def split: if_splits prod.splits option.splits sum.splits)

lemma handleAccountByID_get_1:
  "handleAccountByID memStorage newRecorder (request_with ''GET'' ''1'' t)
     (state_of [account_with 1 42]) =
   (None, \<lparr>header = [''Content-Type'' \<mapsto> ''application/json''], status = Some 200,
           body = [PAccount (Some (account_with 1 42))], encode_error = (\<lambda>v. None)\<rparr>,
    \<lparr>db = [account_with 1 42], trace = [StoreCall (OpGetAccountByID 1)]\<rparr>)"
  by (simp add: handleAccountByID_def getId_1 call_GetAccountByID_def memStorage_def
      state_of_def log_event_def account_with_def WriteJSON_eq WriteHeader_def Header_Set_def
      newRecorder_def StatusOK_def) (simp add: request_with_def)

lemma validateJWT_bareToken:
  "\<exists>token. validateJWT env (bareToken (JWT_TEST_SECRET env)) = Inr token \<and> tok_Valid token \<and>
      tok_Claims token ''accountNumber'' = None"
  by (simp add: validateJWT_def Parse_def ParseUnverified_def bareToken_def unmarshal_object_def
      GetSigningMethod_def keyFunc_def Verify_def Validate_def verifyExpiresAt_def
      verifyNotBefore_def)

subsection \<open>A token presented for its own account\<close>

lemma int64_of_float64_sint:
  "int64_of_float64 ov (sint (x :: int64)) = x"
proof -
  have "- (2 ^ 63) \<le> sint x" "sint x < 2 ^ 63"
    using sint_ge [of x] sint_lt [of x] by simp_all
  then show ?thesis by (simp add: int64_of_float64_def)
qed

lemma own_token_passes:
  assumes "createJWT env0 A = Inr t"
    and "JWT_TEST_SECRET env = JWT_TEST_SECRET env0"
    and "Header r ''x-jwt-token'' = Some t"
    and "getId r = Inr ident"
    and "GetAccountByID s ident (db \<sigma>) = ((Some A, None), d)"
    and "\<bar>sint (Number A)\<bar> \<le> 2 ^ 53"
  shows "withJWTAuth env handlerFunc s w r \<sigma> =
           handlerFunc w r
             (\<sigma>\<lparr>db := d, trace := trace \<sigma> @
                 [Println ''calling JWT middlewares'', StoreCall (OpGetAccountByID ident),
                  HandlerCall]\<rparr>)"
proof -
  from validateJWT_createJWT [OF assms(1,2)] obtain token where
    v: "validateJWT env t = Inr token" and ok: "tok_Valid token" and
    c: "tok_Claims token ''accountNumber'' = Some (IFloat64 (float64_of_int (sint (Number A))))"
    by blast
  from assms(3) have h: "Header_Get (Header r) ''x-jwt-token'' = t"
    by (simp add: Header_Get_def)
  from assms(6) have exact: "float64_of_int (sint (Number A)) = sint (Number A)"
    by (rule float64_of_int_exact)
  from v h have v': "validateJWT env (Header_Get (Header r) ''x-jwt-token'') = Inr token" by simp
  show ?thesis
    by (simp add: withJWTAuth_valid [OF v' ok assms(4,5)] c exact int64_of_float64_sint Let_def)
qed

lemma get_own_account:
  assumes "createJWT env0 A = Inr t"
    and "JWT_TEST_SECRET env = JWT_TEST_SECRET env0"
    and "Header r ''x-jwt-token'' = Some t"
    and "Method r = ''GET''"
    and "getId r = Inr ident"
    and "GetAccountByID s ident (db \<sigma>) = ((Some A, None), d)"
    and "GetAccountByID s ident d = ((Some A, None), d)"
    and "\<bar>sint (Number A)\<bar> \<le> 2 ^ 53"
    and "status w = None"
    and "encode_error w (PAccount (Some A)) = None"
  shows "fst (route_account_id env s w r \<sigma>) = Returned \<and>
         status (fst (snd (route_account_id env s w r \<sigma>))) = Some 200 \<and>
         body (fst (snd (route_account_id env s w r \<sigma>))) = body w @ [PAccount (Some A)]"
  using assms(4,5,7,9,10)
  by (simp add: route_account_id_def own_token_passes [OF assms(1,2,3,5,6,8)]
      makeHTTPHandlerFunc_def handleAccountByID_def call_GetAccountByID_def log_event_def
      WriteJSON_eq WriteHeader_def Header_Set_def StatusOK_def)

subsection \<open>A token presented for another account, on a store that resolves accounts\<close>

text \<open>
  When the store resolves the identifier to an account whose number differs from the
  number the token was issued for, and that number has magnitude at most \<open>2 ^ 53\<close>, the
  middleware denies the request at the comparison.
\<close>

lemma other_token_denied:
  assumes "createJWT env0 B = Inr t"
    and "JWT_TEST_SECRET env = JWT_TEST_SECRET env0"
    and "Header r ''x-jwt-token'' = Some t"
    and "getId r = Inr ident"
    and "GetAccountByID s ident (db \<sigma>) = ((Some A, None), d)"
    and "Number A \<noteq> Number B"
    and "\<bar>sint (Number B)\<bar> \<le> 2 ^ 53"
  shows "withJWTAuth env handlerFunc s w r \<sigma> =
           (Returned, permissionDenied w,
            \<sigma>\<lparr>db := d, trace := trace \<sigma> @
                 [Println ''calling JWT middlewares'', StoreCall (OpGetAccountByID ident)]\<rparr>)"
proof -
  from validateJWT_createJWT [OF assms(1,2)] obtain token where
    v: "validateJWT env t = Inr token" and ok: "tok_Valid token" and
    c: "tok_Claims token ''accountNumber'' = Some (IFloat64 (float64_of_int (sint (Number B))))"
    by blast
  from assms(3) have h: "Header_Get (Header r) ''x-jwt-token'' = t"
    by (simp add: Header_Get_def)
  from assms(7) have exact: "float64_of_int (sint (Number B)) = sint (Number B)"
    by (rule float64_of_int_exact)
  have ne: "Number A \<noteq> int64_of_float64 (overflow env) (sint (Number B))"
    using assms(6) by (simp add: int64_of_float64_sint)
  from v h have v': "validateJWT env (Header_Get (Header r) ''x-jwt-token'') = Inr token" by simp
  show ?thesis
    by (simp add: withJWTAuth_valid [OF v' ok assms(4,5)] c exact ne Let_def)
qed

text \<open>
  Beyond \<open>2 ^ 53\<close> the comparison is not exact: the claim comes back from JSON as a
  \<^verbatim>\<open>float64\<close>, and \<open>2 ^ 53 + 1\<close> rounds to \<open>2 ^ 53\<close>.  On the store in memory, a token
  issued for the account numbered 9007199254740993 passes the middleware on the route of
  the account numbered 9007199254740992, and the handler returns that account.
\<close>

lemma float64_claim_collision:
  "Number (account_with 1 9007199254740992) \<noteq> Number (account_with 2 9007199254740993) \<and>
   createJWT testEnv (account_with 2 9007199254740993)
     = Inr (issued ''hunter2'' 9007199254740993) \<and>
   route_account_id testEnv memStorage newRecorder
     (request_with ''GET'' ''1'' (Some (issued ''hunter2'' 9007199254740993)))
     (state_of [account_with 1 9007199254740992, account_with 2 9007199254740993]) =
   (Returned,
    \<lparr>header = [''Content-Type'' \<mapsto> ''application/json''], status = Some 200,
     body = [PAccount (Some (account_with 1 9007199254740992))],
     encode_error = (\<lambda>v. None)\<rparr>,
    \<lparr>db = [account_with 1 9007199254740992, account_with 2 9007199254740993],
     trace = [Println ''calling JWT middlewares'', StoreCall (OpGetAccountByID 1), HandlerCall,
              StoreCall (OpGetAccountByID 1)]\<rparr>)"
proof -
  let ?r = "request_with ''GET'' ''1'' (Some (issued ''hunter2'' 9007199254740993))"
  let ?\<sigma> = "state_of [account_with 1 9007199254740992, account_with 2 9007199254740993]"
  have secret: "JWT_TEST_SECRET testEnv = ''hunter2''" by (simp add: testEnv_def)
  from validateJWT_issued [of testEnv 9007199254740993] obtain token where
    v: "validateJWT testEnv (Header_Get (Header ?r) ''x-jwt-token'') = Inr token"
    and ok: "tok_Valid token"
    and c: "tok_Claims token ''accountNumber'' = Some (IFloat64 9007199254740992)"
    by (auto simp add: secret Header_Get_request_with float64_tie)
  have g: "GetAccountByID memStorage 1 (db ?\<sigma>)
      = ((Some (account_with 1 9007199254740992), None),
         [account_with 1 9007199254740992, account_with 2 9007199254740993])"
    by (simp add: memStorage_def state_of_def account_with_def)
  have eq: "Number (account_with 1 9007199254740992)
      = int64_of_float64 (overflow testEnv) 9007199254740992"
    by (simp add: account_with_def int64_of_float64_def)
  have h: "handleAccountByID memStorage newRecorder ?r
      \<lparr>db = [account_with 1 9007199254740992, account_with 2 9007199254740993],
       trace = [Println ''calling JWT middlewares'', StoreCall (OpGetAccountByID 1), HandlerCall]\<rparr>
    = (None, \<lparr>header = [''Content-Type'' \<mapsto> ''application/json''], status = Some 200,
        body = [PAccount (Some (account_with 1 9007199254740992))],
     encode_error = (\<lambda>v. None)\<rparr>,
       \<lparr>db = [account_with 1 9007199254740992, account_with 2 9007199254740993],
        trace = [Println ''calling JWT middlewares'', StoreCall (OpGetAccountByID 1), HandlerCall,
                 StoreCall (OpGetAccountByID 1)]\<rparr>)"
    by (simp add: handleAccountByID_def getId_1 call_GetAccountByID_def memStorage_def
        log_event_def account_with_def WriteJSON_eq WriteHeader_def Header_Set_def
        newRecorder_def StatusOK_def) (simp add: request_with_def)
  have third: "route_account_id testEnv memStorage newRecorder ?r ?\<sigma> =
   (Returned,
    \<lparr>header = [''Content-Type'' \<mapsto> ''application/json''], status = Some 200,
     body = [PAccount (Some (account_with 1 9007199254740992))],
     encode_error = (\<lambda>v. None)\<rparr>,
    \<lparr>db = [account_with 1 9007199254740992, account_with 2 9007199254740993],
     trace = [Println ''calling JWT middlewares'', StoreCall (OpGetAccountByID 1), HandlerCall,
              StoreCall (OpGetAccountByID 1)]\<rparr>)"
    unfolding route_account_id_def withJWTAuth_valid [OF v ok getId_1 g]
    by (simp add: c eq [symmetric] Let_def state_of_def makeHTTPHandlerFunc_def h)
  have first: "Number (account_with 1 9007199254740992) \<noteq> Number (account_with 2 9007199254740993)"
    by (simp add: account_with_def)
  have second: "createJWT testEnv (account_with 2 9007199254740993)
     = Inr (issued ''hunter2'' 9007199254740993)"
    by (simp add: createJWT_issued testEnv_def account_with_def)
  from first second third show ?thesis by blast
qed

subsection \<open>An error returned after the status line\<close>

lemma makeHTTPHandlerFunc_error_sent:
  assumes "f w r \<sigma> = (Some err, w', \<sigma>')" and "status w' = Some st"
  shows "status (fst (snd (makeHTTPHandlerFunc f w r \<sigma>))) = Some st"
  using assms by (simp add: makeHTTPHandlerFunc_def status_WriteJSON_sent)

subsection \<open>The four denial sites\<close>

lemma denial_branches:
  assumes "validateJWT env (Header_Get (Header r) ''x-jwt-token'') = Inl e
     \<or> (validateJWT env (Header_Get (Header r) ''x-jwt-token'') = Inr token \<and>
          (\<not> tok_Valid token
           \<or> getId r = Inl e
           \<or> (getId r = Inr ident \<and> GetAccountByID s ident (db \<sigma>) = ((account, Some e), d))
           \<or> (getId r = Inr ident \<and> GetAccountByID s ident (db \<sigma>) = ((Some a, None), d) \<and>
               tok_Claims token ''accountNumber'' = Some (IFloat64 f) \<and>
               Number a \<noteq> int64_of_float64 (overflow env) f)))"
  shows "fst (withJWTAuth env handlerFunc s w r \<sigma>) = Returned \<and>
         fst (snd (withJWTAuth env handlerFunc s w r \<sigma>)) = permissionDenied w"
proof (cases "validateJWT env (Header_Get (Header r) ''x-jwt-token'')")
  case (Inl e')
  then show ?thesis by (simp add: withJWTAuth_invalid)
next
  case (Inr token')
  with assms have tok: "token' = token" by auto
  show ?thesis
  proof (cases "tok_Valid token'")
    case False
    with Inr show ?thesis by (simp add: withJWTAuth_not_Valid)
  next
    case True
    show ?thesis
    proof (cases "getId r")
      case (Inl e')
      then show ?thesis by (simp add: withJWTAuth_bad_id)
    next
      case id: (Inr ident')
      obtain account' err' d' where g: "GetAccountByID s ident' (db \<sigma>) = ((account', err'), d')"
        by (metis surj_pair)
      from assms Inr True id tok g
      have "(\<exists>e. err' = Some e) \<or>
            (\<exists>a f. account' = Some a \<and> err' = None \<and>
               tok_Claims token' ''accountNumber'' = Some (IFloat64 f) \<and>
               Number a \<noteq> int64_of_float64 (overflow env) f)"
        by auto
      then show ?thesis
        by (auto simp add: withJWTAuth_valid [OF Inr True id g] Let_def)
    qed
  qed
qed

lemmas denial_writes_permissionDenied = denial_branches [THEN conjunct2]

lemma handleAccountByID_get_1_ok:
  "fst (handleAccountByID memStorage newRecorder (request_with ''GET'' ''1'' t)
     \<lparr>db = [account_with 1 42], trace = tr\<rparr>) = None"
  by (simp add: handleAccountByID_def getId_1 call_GetAccountByID_def memStorage_def
      log_event_def account_with_def WriteJSON_eq newRecorder_def) (simp add: request_with_def)

section \<open>The claims\<close>

text \<open>
  C1: the claim is that a request to the protected route of account A that presents a
  token issued for another account B is denied by the middleware at the comparison of the
  account numbers.  With the repository's store it is not denied: the table holds A
  (identifier 1, number 42) and B (identifier 2, number 43), \<^verbatim>\<open>createJWT\<close> issues the
  token for B, and the GET on A's route with that token panics on the \<^verbatim>\<open>nil\<close> account
  that \<^verbatim>\<open>GetAccountByID\<close> returns.  The writer is left untouched, which is not what a
  denial leaves; the handler is not called.
\<close>

theorem C1_other_token_not_denied:
  "createJWT testEnv (account_with 2 43) = Inr (issued ''hunter2'' 43) \<and>
   route_account_id testEnv (PostgresStorage listSQL) newRecorder
     (request_with ''GET'' ''1'' (Some (issued ''hunter2'' 43)))
     (state_of [account_with 1 42, account_with 2 43]) =
   (Panicked NilPointerDereference, newRecorder,
    \<lparr>db = [account_with 1 42, account_with 2 43],
     trace = [Println ''calling JWT middlewares'', StoreCall (OpGetAccountByID 1)]\<rparr>) \<and>
   permissionDenied newRecorder \<noteq> newRecorder"
proof -
  let ?r = "request_with ''GET'' ''1'' (Some (issued ''hunter2'' 43))"
  let ?\<sigma> = "state_of [account_with 1 42, account_with 2 43]"
  have secret: "JWT_TEST_SECRET testEnv = ''hunter2''" by (simp add: testEnv_def)
  have first: "createJWT testEnv (account_with 2 43) = Inr (issued ''hunter2'' 43)"
    by (simp add: createJWT_issued secret account_with_def)
  from validateJWT_issued [of testEnv 43] obtain token where
    v: "validateJWT testEnv (Header_Get (Header ?r) ''x-jwt-token'') = Inr token"
    and ok: "tok_Valid token"
    by (auto simp add: secret Header_Get_request_with)
  have g: "GetAccountByID (PostgresStorage listSQL) 1 (db ?\<sigma>)
      = ((None, None), [account_with 1 42, account_with 2 43])"
    by (simp add: PostgresStorage_def PostgresStorage_GetAccountByID_def state_of_def)
  have second: "route_account_id testEnv (PostgresStorage listSQL) newRecorder ?r ?\<sigma> =
     (Panicked NilPointerDereference, newRecorder,
      \<lparr>db = [account_with 1 42, account_with 2 43],
       trace = [Println ''calling JWT middlewares'', StoreCall (OpGetAccountByID 1)]\<rparr>)"
    unfolding route_account_id_def withJWTAuth_valid [OF v ok getId_1 g]
    by (simp add: Let_def state_of_def)
  have "status (permissionDenied newRecorder) = Some 200"
    by (rule status_permissionDenied) (simp add: newRecorder_def)
  moreover have "status newRecorder = None" by (simp add: newRecorder_def)
  ultimately have third: "permissionDenied newRecorder \<noteq> newRecorder" by auto
  from first second third show ?thesis by blast
qed

text \<open>
  C2: the claim is that after an account has been created through the collection route, a
  GET on the single-resource route with a token issued for it passes the middleware and
  returns the account with status 200.  With the repository's store it does not.  The
  creation succeeds (first conjunct: status 200, the account in the body, the token
  printed), \<^verbatim>\<open>createJWT\<close> issues the token (second), and the GET with that token, for
  every account, environment, driver and state, panics in the middleware on the \<^verbatim>\<open>nil\<close>
  account that \<^verbatim>\<open>GetAccountByID\<close> returns: nothing is written and the handler is not
  reached (third).  With a store that resolves the account the request does succeed (lemma
  \<open>get_own_account\<close>).
\<close>

theorem C2_own_token_panics:
  "route_account testEnv (PostgresStorage listSQL) newRecorder (post_request adaBody) (state_of [])
     = (Returned,
        \<lparr>header = [''Content-Type'' \<mapsto> ''application/json''], status = Some 200,
         body = [PAccount (Some (account_with 0 42))],
         encode_error = (\<lambda>v. None)\<rparr>,
        \<lparr>db = [account_with 1 42],
         trace = [StoreCall (OpCreateAccount (account_with 0 42)),
                  PrintlnToken (issued ''hunter2'' 42)]\<rparr>) \<and>
   createJWT env A = Inr (issued (JWT_TEST_SECRET env) (Number A)) \<and>
   route_account_id env (PostgresStorage sql) w
     (request_with ''GET'' ''1'' (Some (issued (JWT_TEST_SECRET env) (Number A)))) \<sigma>
     = (Panicked NilPointerDereference, w,
        \<sigma>\<lparr>trace := trace \<sigma> @
            [Println ''calling JWT middlewares'', StoreCall (OpGetAccountByID 1)]\<rparr>)"
proof -
  have body_ne: "adaBody \<noteq> []" by (simp add: adaBody_def)
  have first: "route_account testEnv (PostgresStorage listSQL) newRecorder (post_request adaBody)
      (state_of [])
     = (Returned,
        \<lparr>header = [''Content-Type'' \<mapsto> ''application/json''], status = Some 200,
         body = [PAccount (Some (account_with 0 42))],
         encode_error = (\<lambda>v. None)\<rparr>,
        \<lparr>db = [account_with 1 42],
         trace = [StoreCall (OpCreateAccount (account_with 0 42)),
                  PrintlnToken (issued ''hunter2'' 42)]\<rparr>)"
    using body_ne
    by (simp add: route_account_def makeHTTPHandlerFunc_def handleAccount_def
        handleCreateAccount_def post_request_def testEnv_def NewAccount_def account_with_def
        call_CreateAccount_def PostgresStorage_def PostgresStorage_CreateAccount_def listSQL_def
        state_of_def log_event_def createJWT_issued WriteJSON_eq WriteHeader_def Header_Set_def
        newRecorder_def StatusOK_def Let_def)
  let ?r = "request_with ''GET'' ''1'' (Some (issued (JWT_TEST_SECRET env) (Number A)))"
  from validateJWT_issued [of env "Number A"] obtain token where
    v: "validateJWT env (Header_Get (Header ?r) ''x-jwt-token'') = Inr token"
    and ok: "tok_Valid token"
    by (auto simp add: Header_Get_request_with)
  have g: "GetAccountByID (PostgresStorage sql) 1 (db \<sigma>) = ((None, None), db \<sigma>)"
    by (simp add: PostgresStorage_def PostgresStorage_GetAccountByID_def)
  have third: "route_account_id env (PostgresStorage sql) w ?r \<sigma>
     = (Panicked NilPointerDereference, w,
        \<sigma>\<lparr>trace := trace \<sigma> @
            [Println ''calling JWT middlewares'', StoreCall (OpGetAccountByID 1)]\<rparr>)"
    unfolding route_account_id_def withJWTAuth_valid [OF v ok getId_1 g]
    by (simp add: Let_def)
  from first createJWT_issued [of env A] third show ?thesis by blast
qed

text \<open>
  C3: a token string whose header declares a signing algorithm outside the HMAC family
  (HS256, HS384, HS512) fails validation, whatever its claims and signature: if the token
  parses at all, the key callback returns an error on it.  A request that presents such a
  token to the protected route is denied, and neither the store nor the handler is called.
\<close>

theorem C3_non_hmac_rejected:
  assumes "unmarshal_object hdr ''alg'' = Some (IString alg)"
    and "alg \<notin> {''HS256'', ''HS384'', ''HS512''}"
  shows "(\<exists>e. validateJWT env (Segments hdr cl sg) = Inl e) \<and>
         (\<forall>token. ParseUnverified (Segments hdr cl sg) = Inr token \<longrightarrow>
            (\<exists>e. keyFunc (JWT_TEST_SECRET env) token = Inl e)) \<and>
         (Header r ''x-jwt-token'' = Some (Segments hdr cl sg) \<longrightarrow>
            withJWTAuth env handlerFunc s w r \<sigma> =
              (Returned, permissionDenied w,
               \<sigma>\<lparr>trace := trace \<sigma> @ [Println ''calling JWT middlewares'']\<rparr>))"
proof -
  have key: "\<exists>e. keyFunc secret token = Inl e"
    if "ParseUnverified (Segments hdr cl sg) = Inr token" for token secret
  proof -
    from that assms(1) have "GetSigningMethod alg = Some (tok_Method token)"
      by (rule ParseUnverified_Method)
    with assms(2) have "\<forall>x. tok_Method token \<noteq> SigningMethodHMAC x"
      using GetSigningMethod_HMAC [of alg] by metis
    then show ?thesis by (simp add: keyFunc_not_HMAC)
  qed
  have fails: "\<exists>e. validateJWT env (Segments hdr cl sg) = Inl e"
  proof (cases "ParseUnverified (Segments hdr cl sg)")
    case (Inl e)
    then show ?thesis by (simp add: validateJWT_def Parse_def)
  next
    case (Inr token)
    from key [OF Inr] obtain e where "keyFunc (JWT_TEST_SECRET env) token = Inl e" by blast
    with Inr show ?thesis by (simp add: validateJWT_def Parse_def)
  qed
  have denied: "withJWTAuth env handlerFunc s w r \<sigma> =
      (Returned, permissionDenied w,
       \<sigma>\<lparr>trace := trace \<sigma> @ [Println ''calling JWT middlewares'']\<rparr>)"
    if "Header r ''x-jwt-token'' = Some (Segments hdr cl sg)"
  proof -
    from that have "Header_Get (Header r) ''x-jwt-token'' = Segments hdr cl sg"
      by (simp add: Header_Get_def)
    with fails show ?thesis by (auto intro: withJWTAuth_invalid)
  qed
  from key fails denied show ?thesis by blast
qed

theorem C3_non_hmac_rejected_witness:
  "(\<exists>e. validateJWT testEnv rsaToken = Inl e) \<and>
   (\<exists>token e. ParseUnverified rsaToken = Inr token \<and>
      keyFunc (JWT_TEST_SECRET testEnv) token = Inl e) \<and>
   withJWTAuth testEnv (makeHTTPHandlerFunc (handleAccountByID memStorage)) memStorage
     newRecorder (request_with ''GET'' ''1'' (Some rsaToken)) (state_of [account_with 1 42]) =
   (Returned, permissionDenied newRecorder,
    \<lparr>db = [account_with 1 42], trace = [Println ''calling JWT middlewares'']\<rparr>)"
proof -
  have alg: "unmarshal_object [(''alg'', JString ''RS256''), (''typ'', JString ''JWT'')] ''alg''
      = Some (IString ''RS256'')"
    by (simp add: unmarshal_object_def)
  have notin: "''RS256'' \<notin> {''HS256'', ''HS384'', ''HS512''}" by simp
  note inst = C3_non_hmac_rejected [OF alg notin, of testEnv "[(''accountNumber'', JNumber 42)]"
      "OtherBytes ''sig''" "request_with ''GET'' ''1'' (Some rsaToken)"
      "makeHTTPHandlerFunc (handleAccountByID memStorage)" memStorage newRecorder
      "state_of [account_with 1 42]", folded rsaToken_def]
  from ParseUnverified_rsaToken obtain token where tok: "ParseUnverified rsaToken = Inr token"
    by blast
  with inst have "\<exists>e. keyFunc (JWT_TEST_SECRET testEnv) token = Inl e" by blast
  with tok have second: "\<exists>token e. ParseUnverified rsaToken = Inr token \<and>
      keyFunc (JWT_TEST_SECRET testEnv) token = Inl e" by blast
  from inst have first: "\<exists>e. validateJWT testEnv rsaToken = Inl e" by blast
  from inst have third: "withJWTAuth testEnv (makeHTTPHandlerFunc (handleAccountByID memStorage))
     memStorage newRecorder (request_with ''GET'' ''1'' (Some rsaToken))
     (state_of [account_with 1 42]) =
   (Returned, permissionDenied newRecorder,
    \<lparr>db = [account_with 1 42], trace = [Println ''calling JWT middlewares'']\<rparr>)"
    by (simp add: request_with_def state_of_def)
  from first second third show ?thesis by blast
qed

text \<open>
  C4: a request to the protected route that carries no \<^verbatim>\<open>x-jwt-token\<close> header, or an
  empty one, is denied at the token-validation step.  The result does not depend on the
  wrapped handler or on the store: the database is as before and the trace gains the one
  printed line, so neither the handler nor any store operation, the middleware's own
  lookup included, has been called.
\<close>

theorem C4_no_token_denied:
  assumes "Header r ''x-jwt-token'' = None \<or> Header r ''x-jwt-token'' = Some (Undecodable [])"
  shows "withJWTAuth env handlerFunc s w r \<sigma> =
           (Returned, permissionDenied w,
            \<sigma>\<lparr>trace := trace \<sigma> @ [Println ''calling JWT middlewares'']\<rparr>)"
proof -
  from assms have "Header_Get (Header r) ''x-jwt-token'' = Undecodable []"
    by (auto simp add: Header_Get_def)
  then have "validateJWT env (Header_Get (Header r) ''x-jwt-token'') = Inl ''token is malformed''"
    by (simp add: validateJWT_def Parse_def ParseUnverified_def)
  then show ?thesis
    by (simp add: withJWTAuth_def log_event_def)
qed

theorem C4_no_token_denied_witness:
  "withJWTAuth testEnv (makeHTTPHandlerFunc (handleAccountByID memStorage)) memStorage
     newRecorder (request_with ''GET'' ''1'' None) (state_of [account_with 1 42]) =
   (Returned, permissionDenied newRecorder,
    \<lparr>db = [account_with 1 42], trace = [Println ''calling JWT middlewares'']\<rparr>)"
  using C4_no_token_denied [of "request_with ''GET'' ''1'' None" testEnv
      "makeHTTPHandlerFunc (handleAccountByID memStorage)" memStorage newRecorder
      "state_of [account_with 1 42]"]
  by (simp add: request_with_def state_of_def)

text \<open>
  C5: the middleware has four places where it denies: the token fails validation (or is
  not marked valid), the path identifier does not parse, the store reports an error for
  the identifier, the account's number differs from the token's claim.  In each of them the
  middleware returns normally having written exactly what \<^verbatim>\<open>permissionDenied\<close> writes,
  which depends on nothing but the writer: the one value
  \<^verbatim>\<open>{"error": "permission denied"}\<close> appended to the body, or nothing when the
  writer does not take it.
\<close>

theorem C5_uniform_denial:
  assumes "validateJWT env (Header_Get (Header r) ''x-jwt-token'') = Inl e
     \<or> (validateJWT env (Header_Get (Header r) ''x-jwt-token'') = Inr token \<and>
          (\<not> tok_Valid token
           \<or> getId r = Inl e
           \<or> (getId r = Inr ident \<and> GetAccountByID s ident (db \<sigma>) = ((account, Some e), d))
           \<or> (getId r = Inr ident \<and> GetAccountByID s ident (db \<sigma>) = ((Some a, None), d) \<and>
               tok_Claims token ''accountNumber'' = Some (IFloat64 f) \<and>
               Number a \<noteq> int64_of_float64 (overflow env) f)))"
  shows "fst (withJWTAuth env handlerFunc s w r \<sigma>) = Returned \<and>
         fst (snd (withJWTAuth env handlerFunc s w r \<sigma>)) = permissionDenied w \<and>
         body (permissionDenied w) =
           (if encode_error w (PApiError \<lparr>Error = ''permission denied''\<rparr>) = None
            then body w @ [PApiError \<lparr>Error = ''permission denied''\<rparr>] else body w)"
  using denial_branches [OF assms, of handlerFunc w] by (simp add: body_permissionDenied)

theorem C5_uniform_denial_witness:
  "body (fst (snd (withJWTAuth testEnv (makeHTTPHandlerFunc (handleAccountByID memStorage))
       memStorage newRecorder (request_with ''GET'' ''1'' None) (state_of [account_with 1 42]))))
     = [PApiError \<lparr>Error = ''permission denied''\<rparr>] \<and>
   body (fst (snd (withJWTAuth testEnv (makeHTTPHandlerFunc (handleAccountByID memStorage))
       memStorage newRecorder (request_with ''GET'' ''abc'' (Some (issued ''hunter2'' 42)))
       (state_of [account_with 1 42]))))
     = [PApiError \<lparr>Error = ''permission denied''\<rparr>] \<and>
   body (fst (snd (withJWTAuth testEnv (makeHTTPHandlerFunc (handleAccountByID memStorage))
       memStorage newRecorder (request_with ''GET'' ''7'' (Some (issued ''hunter2'' 42)))
       (state_of [account_with 1 42]))))
     = [PApiError \<lparr>Error = ''permission denied''\<rparr>] \<and>
   body (fst (snd (withJWTAuth testEnv (makeHTTPHandlerFunc (handleAccountByID memStorage))
       memStorage newRecorder (request_with ''GET'' ''1'' (Some (issued ''hunter2'' 43)))
       (state_of [account_with 1 42]))))
     = [PApiError \<lparr>Error = ''permission denied''\<rparr>]"
proof -
  let ?H = "makeHTTPHandlerFunc (handleAccountByID memStorage)"
  let ?\<sigma> = "state_of [account_with 1 42]"
  have secret: "JWT_TEST_SECRET testEnv = ''hunter2''" by (simp add: testEnv_def)
  have b: "body newRecorder = []" "encode_error newRecorder = (\<lambda>v. None)"
    by (simp_all add: newRecorder_def)
  \<comment> \<open>no token\<close>
  have "validateJWT testEnv (Header_Get (Header (request_with ''GET'' ''1'' None)) ''x-jwt-token'')
          = Inl ''token is malformed''"
    by (simp add: Header_Get_request_with validateJWT_empty)
  from C5_uniform_denial [OF disjI1, OF this, of ?H memStorage newRecorder ?\<sigma>]
  have one: "body (fst (snd (withJWTAuth testEnv ?H memStorage newRecorder
        (request_with ''GET'' ''1'' None) ?\<sigma>))) = [PApiError \<lparr>Error = ''permission denied''\<rparr>]"
    by (simp add: b)
  \<comment> \<open>a valid token\<close>
  from validateJWT_issued [of testEnv 42] obtain token where
    v: "validateJWT testEnv (issued ''hunter2'' 42) = Inr token" and "tok_Valid token"
    by (auto simp add: secret)
  \<comment> \<open>malformed identifier\<close>
  have v2: "validateJWT testEnv
      (Header_Get (Header (request_with ''GET'' ''abc'' (Some (issued ''hunter2'' 42)))) ''x-jwt-token'')
        = Inr token"
    by (simp add: Header_Get_request_with v)
  from C5_uniform_denial [OF disjI2, OF conjI, OF v2 disjI2, OF disjI1, OF getId_abc,
      of ?H memStorage newRecorder ?\<sigma>]
  have two: "body (fst (snd (withJWTAuth testEnv ?H memStorage newRecorder
        (request_with ''GET'' ''abc'' (Some (issued ''hunter2'' 42))) ?\<sigma>)))
          = [PApiError \<lparr>Error = ''permission denied''\<rparr>]"
    by (simp add: b)
  \<comment> \<open>failed resolution\<close>
  have v3: "validateJWT testEnv
      (Header_Get (Header (request_with ''GET'' ''7'' (Some (issued ''hunter2'' 42)))) ''x-jwt-token'')
        = Inr token"
    by (simp add: Header_Get_request_with v)
  have g3: "getId (request_with ''GET'' ''7'' (Some (issued ''hunter2'' 42))) = Inr 7 \<and>
      GetAccountByID memStorage 7 (db ?\<sigma>) = ((None, Some ''account not found''), [account_with 1 42])"
    by (simp add: getId_7 memStorage_def state_of_def account_with_def)
  from C5_uniform_denial [OF disjI2, OF conjI, OF v3 disjI2, OF disjI2, OF disjI1, OF g3,
      of ?H newRecorder]
  have three: "body (fst (snd (withJWTAuth testEnv ?H memStorage newRecorder
        (request_with ''GET'' ''7'' (Some (issued ''hunter2'' 42))) ?\<sigma>)))
          = [PApiError \<lparr>Error = ''permission denied''\<rparr>]"
    by (simp add: b)
  \<comment> \<open>mismatch\<close>
  from validateJWT_issued [of testEnv 43] obtain token' where
    v': "validateJWT testEnv (issued ''hunter2'' 43) = Inr token'" and
    c': "tok_Claims token' ''accountNumber'' = Some (IFloat64 (float64_of_int (sint (43 :: int64))))"
    by (auto simp add: secret)
  have v4: "validateJWT testEnv
      (Header_Get (Header (request_with ''GET'' ''1'' (Some (issued ''hunter2'' 43)))) ''x-jwt-token'')
        = Inr token'"
    by (simp add: Header_Get_request_with v')
  have g4: "getId (request_with ''GET'' ''1'' (Some (issued ''hunter2'' 43))) = Inr 1 \<and>
      GetAccountByID memStorage 1 (db ?\<sigma>) = ((Some (account_with 1 42), None), [account_with 1 42]) \<and>
      tok_Claims token' ''accountNumber'' = Some (IFloat64 43) \<and>
      Number (account_with 1 42) \<noteq> int64_of_float64 (overflow testEnv) 43"
    by (simp add: getId_1 memStorage_def state_of_def account_with_def c' float64_of_int_exact
        int64_of_float64_def)
  from C5_uniform_denial [OF disjI2, OF conjI, OF v4 disjI2, OF disjI2, OF disjI2, OF g4,
      of ?H newRecorder]
  have four: "body (fst (snd (withJWTAuth testEnv ?H memStorage newRecorder
        (request_with ''GET'' ''1'' (Some (issued ''hunter2'' 43))) ?\<sigma>)))
          = [PApiError \<lparr>Error = ''permission denied''\<rparr>]"
    by (simp add: b)
  from one two three four show ?thesis by blast
qed

text \<open>
  C6: the claim is that every error a handler returns, of whatever kind, is answered with
  status 400 and the error's message.  \<^verbatim>\<open>makeHTTPHandlerFunc\<close> tries to, but the
  handlers end in \<^verbatim>\<open>return WriteJSON(w, http.StatusOK, ...)\<close>, which sends the status
  line before it encodes.  On a connection that takes no write, the listing of the
  accounts returns the encoder's error with status 200 already sent; the status 400 that
  follows is ignored and the response stays 200, without the error's message.
\<close>

theorem C6_encode_error_keeps_200:
  "fst (handleAccount testEnv (PostgresStorage listSQL) brokenRecorder list_request
         (state_of [account_with 1 42])) = Some ''write: broken pipe'' \<and>
   status (fst (snd (route_account testEnv (PostgresStorage listSQL) brokenRecorder list_request
         (state_of [account_with 1 42])))) = Some 200 \<and>
   body (fst (snd (route_account testEnv (PostgresStorage listSQL) brokenRecorder list_request
         (state_of [account_with 1 42])))) = []"
proof -
  have h: "handleAccount testEnv (PostgresStorage listSQL) brokenRecorder list_request
      (state_of [account_with 1 42]) =
    (Some ''write: broken pipe'',
     brokenRecorder\<lparr>header := [''Content-Type'' \<mapsto> ''application/json''], status := Some 200\<rparr>,
     \<lparr>db = [account_with 1 42], trace = [StoreCall OpGetAllAccounts]\<rparr>)"
    by (simp add: handleAccount_def handleGetAllAccounts_def call_GetAllAccounts_def
        PostgresStorage_def PostgresStorage_GetAllAccounts_def listSQL_def list_request_def
        state_of_def log_event_def WriteJSON_eq WriteHeader_def Header_Set_def
        brokenRecorder_def StatusOK_def)
  then show ?thesis
    by (simp add: route_account_def makeHTTPHandlerFunc_def WriteJSON_eq WriteHeader_def
        Header_Set_def brokenRecorder_def)
qed

text \<open>
  C7: the claim is that \<^verbatim>\<open>GetAccountByID\<close> returns the account stored under the
  identifier or fails with a not-found error, also after a delete.  The method of
  \<^verbatim>\<open>PostgresStorage\<close> does neither: for every identifier and database it returns a
  \<^verbatim>\<open>nil\<close> account beside a \<^verbatim>\<open>nil\<close> error.  \<^verbatim>\<open>DeleteAccount\<close> reports success and
  leaves the database as it was, and the lookup after it gives the same empty success.
\<close>

theorem C7_GetAccountByID_empty_success:
  "GetAccountByID (PostgresStorage sql) ident d = ((None, None), d) \<and>
   DeleteAccount (PostgresStorage sql) ident d = (None, d) \<and>
   GetAccountByID (PostgresStorage sql) ident (snd (DeleteAccount (PostgresStorage sql) ident d))
     = ((None, None), d)"
  by (simp add: PostgresStorage_def PostgresStorage_GetAccountByID_def
      PostgresStorage_DeleteAccount_def)

text \<open>
  C8: a verb other than GET or POST on the collection route, and a verb other than GET or
  DELETE on the single-resource route, makes the handler fail with the error
  \<^verbatim>\<open>method not allowed, \<close> followed by the verb; nothing is written and no store
  operation is called.
\<close>

theorem C8_method_not_allowed:
  "(Method r \<notin> {''GET'', ''POST''} \<longrightarrow>
      handleAccount env s w r \<sigma> = (Some (''method not allowed, '' @ Method r), w, \<sigma>)) \<and>
   (Method r \<notin> {''GET'', ''DELETE''} \<longrightarrow>
      handleAccountByID s w r \<sigma> = (Some (''method not allowed, '' @ Method r), w, \<sigma>))"
  by (simp add: handleAccount_def handleAccountByID_def)

theorem C8_method_not_allowed_witness:
  "handleAccount testEnv memStorage newRecorder (request_with ''PUT'' ''1'' None) (state_of [])
     = (Some ''method not allowed, PUT'', newRecorder, state_of []) \<and>
   handleAccountByID memStorage newRecorder (request_with ''POST'' ''1'' None) (state_of [])
     = (Some ''method not allowed, POST'', newRecorder, state_of [])"
  using C8_method_not_allowed [of "request_with ''PUT'' ''1'' None" testEnv memStorage
      newRecorder "state_of []"]
    C8_method_not_allowed [of "request_with ''POST'' ''1'' None" testEnv memStorage
      newRecorder "state_of []"]
  by (simp add: request_with_def)

text \<open>
  C9: on a fresh writer, every denial of the middleware (each of its four denial sites,
  as in C5) leaves the response with status 200.  A request that passes the middleware on
  the protected route and whose handler succeeds is answered with status 200 as well, so
  the status code does not tell a denial from a success.
\<close>

theorem C9_denial_status_OK:
  assumes "status w = None"
  shows "(validateJWT env (Header_Get (Header r) ''x-jwt-token'') = Inl e
          \<or> (validateJWT env (Header_Get (Header r) ''x-jwt-token'') = Inr token \<and>
               (\<not> tok_Valid token
                \<or> getId r = Inl e
                \<or> (getId r = Inr ident \<and>
                    GetAccountByID s ident (db \<sigma>) = ((account, Some e), d))
                \<or> (getId r = Inr ident \<and>
                    GetAccountByID s ident (db \<sigma>) = ((Some a, None), d) \<and>
                    tok_Claims token ''accountNumber'' = Some (IFloat64 f) \<and>
                    Number a \<noteq> int64_of_float64 (overflow env) f)))
          \<longrightarrow> status (fst (snd (withJWTAuth env handlerFunc s w r \<sigma>))) = Some 200) \<and>
         (validateJWT env (Header_Get (Header r) ''x-jwt-token'') = Inr token \<and>
          tok_Valid token \<and> getId r = Inr ident \<and>
          GetAccountByID s ident (db \<sigma>) = ((Some a, None), d) \<and>
          tok_Claims token ''accountNumber'' = Some (IFloat64 f) \<and>
          Number a = int64_of_float64 (overflow env) f \<and>
          fst (handleAccountByID s w r
                 (\<sigma>\<lparr>db := d, trace := trace \<sigma> @
                    [Println ''calling JWT middlewares'', StoreCall (OpGetAccountByID ident),
                     HandlerCall]\<rparr>)) = None
          \<longrightarrow> status (fst (snd (route_account_id env s w r \<sigma>))) = Some 200)"
proof (intro conjI impI)
  assume "validateJWT env (Header_Get (Header r) ''x-jwt-token'') = Inl e
          \<or> (validateJWT env (Header_Get (Header r) ''x-jwt-token'') = Inr token \<and>
               (\<not> tok_Valid token
                \<or> getId r = Inl e
                \<or> (getId r = Inr ident \<and>
                    GetAccountByID s ident (db \<sigma>) = ((account, Some e), d))
                \<or> (getId r = Inr ident \<and>
                    GetAccountByID s ident (db \<sigma>) = ((Some a, None), d) \<and>
                    tok_Claims token ''accountNumber'' = Some (IFloat64 f) \<and>
                    Number a \<noteq> int64_of_float64 (overflow env) f)))"
  then have "fst (snd (withJWTAuth env handlerFunc s w r \<sigma>)) = permissionDenied w"
    by (rule denial_writes_permissionDenied)
  with assms show "status (fst (snd (withJWTAuth env handlerFunc s w r \<sigma>))) = Some 200"
    by (simp add: status_permissionDenied)
next
  let ?\<sigma>' = "\<sigma>\<lparr>db := d, trace := trace \<sigma> @
      [Println ''calling JWT middlewares'', StoreCall (OpGetAccountByID ident), HandlerCall]\<rparr>"
  assume pass: "validateJWT env (Header_Get (Header r) ''x-jwt-token'') = Inr token \<and>
          tok_Valid token \<and> getId r = Inr ident \<and>
          GetAccountByID s ident (db \<sigma>) = ((Some a, None), d) \<and>
          tok_Claims token ''accountNumber'' = Some (IFloat64 f) \<and>
          Number a = int64_of_float64 (overflow env) f \<and>
          fst (handleAccountByID s w r ?\<sigma>') = None"
  then have v: "validateJWT env (Header_Get (Header r) ''x-jwt-token'') = Inr token"
    and ok: "tok_Valid token" and i: "getId r = Inr ident"
    and g: "GetAccountByID s ident (db \<sigma>) = ((Some a, None), d)"
    and c: "tok_Claims token ''accountNumber'' = Some (IFloat64 f)"
    and eq: "Number a = int64_of_float64 (overflow env) f"
    and h: "fst (handleAccountByID s w r ?\<sigma>') = None"
    by simp_all
  obtain w' \<sigma>'' where h': "handleAccountByID s w r ?\<sigma>' = (None, w', \<sigma>'')"
    using h by (cases "handleAccountByID s w r ?\<sigma>'") auto
  from handleAccountByID_success [OF assms h'] have "status w' = Some 200"
    by (simp add: StatusOK_def)
  then show "status (fst (snd (route_account_id env s w r \<sigma>))) = Some 200"
    unfolding route_account_id_def withJWTAuth_valid [OF v ok i g]
    by (simp add: c eq Let_def makeHTTPHandlerFunc_def h')
qed

theorem C9_denial_status_OK_witness:
  "status (fst (snd (withJWTAuth testEnv (makeHTTPHandlerFunc (handleAccountByID memStorage))
       memStorage newRecorder (request_with ''GET'' ''1'' None) (state_of [account_with 1 42]))))
     = Some 200 \<and>
   status (fst (snd (withJWTAuth testEnv (makeHTTPHandlerFunc (handleAccountByID memStorage))
       memStorage newRecorder (request_with ''GET'' ''abc'' (Some (issued ''hunter2'' 42)))
       (state_of [account_with 1 42]))))
     = Some 200 \<and>
   status (fst (snd (withJWTAuth testEnv (makeHTTPHandlerFunc (handleAccountByID memStorage))
       memStorage newRecorder (request_with ''GET'' ''7'' (Some (issued ''hunter2'' 42)))
       (state_of [account_with 1 42]))))
     = Some 200 \<and>
   status (fst (snd (withJWTAuth testEnv (makeHTTPHandlerFunc (handleAccountByID memStorage))
       memStorage newRecorder (request_with ''GET'' ''1'' (Some (issued ''hunter2'' 43)))
       (state_of [account_with 1 42]))))
     = Some 200 \<and>
   status (fst (snd (route_account_id testEnv memStorage newRecorder
       (request_with ''GET'' ''1'' (Some (issued ''hunter2'' 42)))
       (state_of [account_with 1 42]))))
     = Some 200"
proof -
  let ?H = "makeHTTPHandlerFunc (handleAccountByID memStorage)"
  let ?\<sigma> = "state_of [account_with 1 42]"
  have secret: "JWT_TEST_SECRET testEnv = ''hunter2''" by (simp add: testEnv_def)
  have fresh: "status newRecorder = None" by (simp add: newRecorder_def)
  note deny = C9_denial_status_OK [OF fresh, THEN conjunct1, THEN mp]
  note pass = C9_denial_status_OK [OF fresh, THEN conjunct2, THEN mp]
  \<comment> \<open>no token\<close>
  have "validateJWT testEnv (Header_Get (Header (request_with ''GET'' ''1'' None)) ''x-jwt-token'')
          = Inl ''token is malformed''"
    by (simp add: Header_Get_request_with validateJWT_empty)
  from deny [OF disjI1, OF this, of ?H memStorage ?\<sigma>]
  have one: "status (fst (snd (withJWTAuth testEnv ?H memStorage newRecorder
        (request_with ''GET'' ''1'' None) ?\<sigma>))) = Some 200" .
  \<comment> \<open>a valid token\<close>
  from validateJWT_issued [of testEnv 42] obtain token where
    v: "validateJWT testEnv (issued ''hunter2'' 42) = Inr token" and ok: "tok_Valid token"
    and c: "tok_Claims token ''accountNumber'' = Some (IFloat64 (float64_of_int (sint (42 :: int64))))"
    by (auto simp add: secret)
  \<comment> \<open>malformed identifier\<close>
  have v2: "validateJWT testEnv
      (Header_Get (Header (request_with ''GET'' ''abc'' (Some (issued ''hunter2'' 42)))) ''x-jwt-token'')
        = Inr token"
    by (simp add: Header_Get_request_with v)
  from deny [OF disjI2, OF conjI, OF v2 disjI2, OF disjI1, OF getId_abc,
      of ?H memStorage ?\<sigma>]
  have two: "status (fst (snd (withJWTAuth testEnv ?H memStorage newRecorder
        (request_with ''GET'' ''abc'' (Some (issued ''hunter2'' 42))) ?\<sigma>))) = Some 200" .
  \<comment> \<open>failed resolution\<close>
  have v3: "validateJWT testEnv
      (Header_Get (Header (request_with ''GET'' ''7'' (Some (issued ''hunter2'' 42)))) ''x-jwt-token'')
        = Inr token"
    by (simp add: Header_Get_request_with v)
  have g3: "getId (request_with ''GET'' ''7'' (Some (issued ''hunter2'' 42))) = Inr 7 \<and>
      GetAccountByID memStorage 7 (db ?\<sigma>) = ((None, Some ''account not found''), [account_with 1 42])"
    by (simp add: getId_7 memStorage_def state_of_def account_with_def)
  from deny [OF disjI2, OF conjI, OF v3 disjI2, OF disjI2, OF disjI1, OF g3, of ?H]
  have three: "status (fst (snd (withJWTAuth testEnv ?H memStorage newRecorder
        (request_with ''GET'' ''7'' (Some (issued ''hunter2'' 42))) ?\<sigma>))) = Some 200" .
  \<comment> \<open>mismatch\<close>
  from validateJWT_issued [of testEnv 43] obtain token' where
    v': "validateJWT testEnv (issued ''hunter2'' 43) = Inr token'" and
    c': "tok_Claims token' ''accountNumber'' = Some (IFloat64 (float64_of_int (sint (43 :: int64))))"
    by (auto simp add: secret)
  have v4: "validateJWT testEnv
      (Header_Get (Header (request_with ''GET'' ''1'' (Some (issued ''hunter2'' 43)))) ''x-jwt-token'')
        = Inr token'"
    by (simp add: Header_Get_request_with v')
  have g4: "getId (request_with ''GET'' ''1'' (Some (issued ''hunter2'' 43))) = Inr 1 \<and>
      GetAccountByID memStorage 1 (db ?\<sigma>) = ((Some (account_with 1 42), None), [account_with 1 42]) \<and>
      tok_Claims token' ''accountNumber'' = Some (IFloat64 43) \<and>
      Number (account_with 1 42) \<noteq> int64_of_float64 (overflow testEnv) 43"
    by (simp add: getId_1 memStorage_def state_of_def account_with_def c' float64_of_int_exact
        int64_of_float64_def)
  from deny [OF disjI2, OF conjI, OF v4 disjI2, OF disjI2, OF disjI2, OF g4, of ?H]
  have four: "status (fst (snd (withJWTAuth testEnv ?H memStorage newRecorder
        (request_with ''GET'' ''1'' (Some (issued ''hunter2'' 43))) ?\<sigma>))) = Some 200" .
  \<comment> \<open>the account's own token\<close>
  have g5: "validateJWT testEnv
      (Header_Get (Header (request_with ''GET'' ''1'' (Some (issued ''hunter2'' 42)))) ''x-jwt-token'')
        = Inr token \<and>
      tok_Valid token \<and>
      getId (request_with ''GET'' ''1'' (Some (issued ''hunter2'' 42))) = Inr 1 \<and>
      GetAccountByID memStorage 1 (db ?\<sigma>) = ((Some (account_with 1 42), None), [account_with 1 42]) \<and>
      tok_Claims token ''accountNumber'' = Some (IFloat64 42) \<and>
      Number (account_with 1 42) = int64_of_float64 (overflow testEnv) 42 \<and>
      fst (handleAccountByID memStorage newRecorder
             (request_with ''GET'' ''1'' (Some (issued ''hunter2'' 42)))
             (?\<sigma>\<lparr>db := [account_with 1 42], trace := trace ?\<sigma> @
                [Println ''calling JWT middlewares'', StoreCall (OpGetAccountByID 1),
                 HandlerCall]\<rparr>)) = None"
  proof -
    have h: "fst (handleAccountByID memStorage newRecorder
             (request_with ''GET'' ''1'' (Some (issued ''hunter2'' 42)))
             (?\<sigma>\<lparr>db := [account_with 1 42], trace := trace ?\<sigma> @
                [Println ''calling JWT middlewares'', StoreCall (OpGetAccountByID 1),
                 HandlerCall]\<rparr>)) = None"
      by (simp add: state_of_def handleAccountByID_get_1_ok)
    have rest: "GetAccountByID memStorage 1 (db ?\<sigma>)
          = ((Some (account_with 1 42), None), [account_with 1 42]) \<and>
        tok_Claims token ''accountNumber'' = Some (IFloat64 42) \<and>
        Number (account_with 1 42) = int64_of_float64 (overflow testEnv) 42"
      by (simp add: memStorage_def state_of_def c float64_of_int_exact int64_of_float64_def
          account_with_def)
    from h rest show ?thesis
      by (simp add: Header_Get_request_with v ok getId_1)
  qed
  from pass [OF g5]
  have five: "status (fst (snd (route_account_id testEnv memStorage newRecorder
       (request_with ''GET'' ''1'' (Some (issued ''hunter2'' 42))) ?\<sigma>))) = Some 200" .
  from one two three four five show ?thesis by blast
qed

text \<open>
  C10: the comparison at the end of the middleware is partial.  Once the token has
  validated and the identifier has parsed, a store that returns a \<^verbatim>\<open>nil\<close> account
  beside a \<^verbatim>\<open>nil\<close> error makes the request panic on the dereference, and
  \<^verbatim>\<open>PostgresStorage.GetAccountByID\<close> returns exactly that for every identifier; with an
  account resolved, a token whose \<^verbatim>\<open>accountNumber\<close> claim is absent or no number makes
  the request panic on the type assertion.  In both cases nothing has been written: the
  request is not denied.
\<close>

theorem C10_middleware_panics:
  assumes "validateJWT env (Header_Get (Header r) ''x-jwt-token'') = Inr token"
    and "tok_Valid token"
    and "getId r = Inr ident"
  shows "(GetAccountByID s ident (db \<sigma>) = ((None, None), d) \<longrightarrow>
            fst (withJWTAuth env handlerFunc s w r \<sigma>) = Panicked NilPointerDereference \<and>
            fst (snd (withJWTAuth env handlerFunc s w r \<sigma>)) = w) \<and>
         (GetAccountByID s ident (db \<sigma>) = ((Some a, None), d) \<and>
          (\<forall>f. tok_Claims token ''accountNumber'' \<noteq> Some (IFloat64 f)) \<longrightarrow>
            fst (withJWTAuth env handlerFunc s w r \<sigma>) = Panicked InterfaceConversion \<and>
            fst (snd (withJWTAuth env handlerFunc s w r \<sigma>)) = w) \<and>
         GetAccountByID (PostgresStorage sql) ident d' = ((None, None), d')"
proof -
  have one: "fst (withJWTAuth env handlerFunc s w r \<sigma>) = Panicked NilPointerDereference \<and>
             fst (snd (withJWTAuth env handlerFunc s w r \<sigma>)) = w"
    if g: "GetAccountByID s ident (db \<sigma>) = ((None, None), d)"
    by (simp add: withJWTAuth_valid [OF assms g] Let_def)
  have two: "fst (withJWTAuth env handlerFunc s w r \<sigma>) = Panicked InterfaceConversion \<and>
             fst (snd (withJWTAuth env handlerFunc s w r \<sigma>)) = w"
    if g: "GetAccountByID s ident (db \<sigma>) = ((Some a, None), d)"
      and c: "\<forall>f. tok_Claims token ''accountNumber'' \<noteq> Some (IFloat64 f)"
    using c by (simp add: withJWTAuth_valid [OF assms g] Let_def split: option.splits any.splits)
  have three: "GetAccountByID (PostgresStorage sql) ident d' = ((None, None), d')"
    by (simp add: PostgresStorage_def PostgresStorage_GetAccountByID_def)
  from one two three show ?thesis by blast
qed

theorem C10_middleware_panics_witness:
  "fst (withJWTAuth testEnv (makeHTTPHandlerFunc (handleAccountByID (PostgresStorage listSQL)))
     (PostgresStorage listSQL) newRecorder
     (request_with ''GET'' ''1'' (Some (issued ''hunter2'' 42))) (state_of [account_with 1 42]))
     = Panicked NilPointerDereference \<and>
   fst (withJWTAuth testEnv (makeHTTPHandlerFunc (handleAccountByID memStorage)) memStorage
     newRecorder (request_with ''GET'' ''1'' (Some (bareToken ''hunter2'')))
     (state_of [account_with 1 42]))
     = Panicked InterfaceConversion"
proof -
  have secret: "JWT_TEST_SECRET testEnv = ''hunter2''" by (simp add: testEnv_def)
  from validateJWT_issued [of testEnv 42] obtain token where
    v: "validateJWT testEnv
          (Header_Get (Header (request_with ''GET'' ''1'' (Some (issued ''hunter2'' 42))))
             ''x-jwt-token'') = Inr token"
    and ok: "tok_Valid token"
    by (auto simp add: secret Header_Get_request_with)
  have g: "GetAccountByID (PostgresStorage listSQL) 1 (db (state_of [account_with 1 42]))
      = ((None, None), [account_with 1 42])"
    by (simp add: PostgresStorage_def PostgresStorage_GetAccountByID_def state_of_def)
  from C10_middleware_panics [where s = "PostgresStorage listSQL"
      and \<sigma> = "state_of [account_with 1 42]" and d = "[account_with 1 42]"
      and handlerFunc = "makeHTTPHandlerFunc (handleAccountByID (PostgresStorage listSQL))"
      and w = newRecorder and a = "account_with 1 42" and sql = listSQL
      and d' = "[account_with 1 42]", OF v ok getId_1] g
  have one: "fst (withJWTAuth testEnv
      (makeHTTPHandlerFunc (handleAccountByID (PostgresStorage listSQL)))
      (PostgresStorage listSQL) newRecorder
      (request_with ''GET'' ''1'' (Some (issued ''hunter2'' 42))) (state_of [account_with 1 42]))
        = Panicked NilPointerDereference"
    by simp
  from validateJWT_bareToken [of testEnv] obtain token' where
    v': "validateJWT testEnv
          (Header_Get (Header (request_with ''GET'' ''1'' (Some (bareToken ''hunter2''))))
             ''x-jwt-token'') = Inr token'"
    and ok': "tok_Valid token'" and c': "tok_Claims token' ''accountNumber'' = None"
    by (auto simp add: secret Header_Get_request_with)
  have g': "GetAccountByID memStorage 1 (db (state_of [account_with 1 42]))
      = ((Some (account_with 1 42), None), [account_with 1 42])"
    by (simp add: memStorage_def state_of_def account_with_def)
  from C10_middleware_panics [where s = memStorage
      and \<sigma> = "state_of [account_with 1 42]" and d = "[account_with 1 42]"
      and handlerFunc = "makeHTTPHandlerFunc (handleAccountByID memStorage)"
      and w = newRecorder and a = "account_with 1 42" and sql = listSQL
      and d' = "[account_with 1 42]", OF v' ok' getId_1] g' c'
  have two: "fst (withJWTAuth testEnv (makeHTTPHandlerFunc (handleAccountByID memStorage))
      memStorage newRecorder (request_with ''GET'' ''1'' (Some (bareToken ''hunter2'')))
      (state_of [account_with 1 42])) = Panicked InterfaceConversion"
    by simp
  from one two show ?thesis by blast
qed

end
